theory Spec2Isabelle
  imports Complex_Main "HOL-Library.AList" "HOL-Library.Sublist"
begin

section \<open>Python values, exceptions and JSON documents\<close>

text \<open>
  The script \<^verbatim>\<open>modules/extract_dicom_metadata.py\<close> reads attributes of a decoded
  DICOM dataset, coerces them and writes a JSON document. The values it meets are
  Python objects; the model keeps the kinds of object the script tells apart
  (\<^verbatim>\<open>hasattr(value, '__iter__')\<close>, \<^verbatim>\<open>isinstance(value, (str, bytes, dict))\<close>,
  \<^verbatim>\<open>float(value)\<close>, \<^verbatim>\<open>str(value)\<close>).

  A str is a list of characters. The characters are the code points below 256,
  which hold every text the script compares with and the letter U+00DF.

  A float is finite, an infinity or NaN. A finite float is represented by its
  exact value; the rounding of a decimal text to a double is a matter of the
  interpreter and is not modelled.
\<close>

datatype pyfloat = Finite rat | PosInf | NegInf | NaN

datatype pyval =
    PNone
  | PStr string
  | PBytes string
  | PInt int
  | PFloat pyfloat
  | PList "pyval list"

text \<open>
  An exception is its class and the text \<^verbatim>\<open>str(e)\<close>. Only classes derived from
  \<^verbatim>\<open>Exception\<close> are modelled; \<open>ImportError\<close> stands for the class and its
  subclasses (\<^verbatim>\<open>ModuleNotFoundError\<close>), \<open>OtherError\<close> for every class the script
  does not name.
\<close>

datatype exc_class = ImportError | ValueError | TypeError | OverflowError | OSError | OtherError

datatype pyexc = PyExc (exc_class_of: exc_class) (message: string)

text \<open>
  What \<^verbatim>\<open>json.dump\<close> is given: the \<^verbatim>\<open>metadata\<close> dict is an association list in
  insertion order (a Python dict keeps the position of a key that is assigned
  again, as \<open>AList.update\<close> does); \<open>JInt\<close> is the integer literal \<^verbatim>\<open>3\<close> of the
  fallback documents, \<open>JNum\<close> a float.
\<close>

datatype json = JStr string | JNum pyfloat | JInt int | JBool bool | JList "json list"

type_synonym jdoc = "(string \<times> json) list"

text \<open>
  The dataset returned by \<^verbatim>\<open>pydicom.dcmread\<close>, seen through \<^verbatim>\<open>hasattr\<close> and attribute
  access. \<^verbatim>\<open>hasattr\<close> answers \<^verbatim>\<open>False\<close> only when the access raises
  \<^verbatim>\<open>AttributeError\<close> (\<open>Absent\<close>); any other exception raised while the library
  produces the value leaves \<^verbatim>\<open>hasattr\<close> itself (\<open>Faulty\<close>).
\<close>

datatype lookup = Absent | Faulty pyexc | Present pyval

type_synonym dataset = "string \<Rightarrow> lookup"

text \<open>
  A file holds raw bytes or the text \<^verbatim>\<open>json.dump\<close> wrote for a document.
  \<^verbatim>\<open>json.dump\<close> is a function of the document, so two files holding the same
  document are byte-identical.
\<close>

datatype fcontent = Raw string | Json jdoc

text \<open>
  What the script takes from its interpreter and from the decoding library, none
  of it code of the repository: whether \<^verbatim>\<open>import pydicom\<close> raises, what
  \<^verbatim>\<open>pydicom.dcmread\<close> makes of the file at a path (\<open>None\<close>: no such file), the
  builtin \<^verbatim>\<open>float\<close> on the text of a str or bytes object (\<open>None\<close>: \<^verbatim>\<open>ValueError\<close>),
  the builtin \<^verbatim>\<open>str\<close> on an object that is not a str, and the method
  \<^verbatim>\<open>str.upper\<close>. \<^verbatim>\<open>str.upper\<close> follows Unicode: it need not keep the length of
  the text (the letter U+00DF becomes \<^verbatim>\<open>SS\<close>), so nothing is assumed of it here.
\<close>

record pyenv =
  import_pydicom :: "pyexc option"
  dcmread :: "fcontent option \<Rightarrow> pyexc + dataset"
  float_str :: "string \<Rightarrow> pyfloat option"
  str_obj :: "pyval \<Rightarrow> string"
  str_upper :: "string \<Rightarrow> string"

text \<open>
  The world outside the process: the regular files, the paths that
  \<^verbatim>\<open>open(path, 'w')\<close> refuses together with the exception it raises, and the lines
  printed to standard output so far.
\<close>

record world =
  files :: "string \<rightharpoonup> fcontent"
  open_error :: "string \<rightharpoonup> pyexc"
  stdout :: "string list"

definition print_line :: "string \<Rightarrow> world \<Rightarrow> world" where
  "print_line l w = w\<lparr>stdout := stdout w @ [l]\<rparr>"

definition isfile :: "world \<Rightarrow> string \<Rightarrow> bool" where
  "isfile w p = (files w p \<noteq> None)"

text \<open>\<^verbatim>\<open>with open(output_path, 'w') as f: json.dump(doc, f, indent=2)\<close>\<close>

definition write_json :: "string \<Rightarrow> jdoc \<Rightarrow> world \<Rightarrow> pyexc + world" where
  "write_json path doc w =
     (case open_error w path of
        Some e \<Rightarrow> Inl e
      | None \<Rightarrow> Inr (w\<lparr>files := (files w)(path \<mapsto> Json doc)\<rparr>))"

section \<open>The builtins the script calls\<close>

text \<open>
  \<^verbatim>\<open>float(value)\<close>. A str or bytes object is parsed by the interpreter; an int
  converts unless it is too large for a double (from \<open>2^1024 - 2^970\<close> on, where
  rounding to nearest reaches \<open>2^1024\<close>); \<^verbatim>\<open>None\<close> and a list raise \<^verbatim>\<open>TypeError\<close>.
\<close>

definition float_limit :: int where
  "float_limit = 2 ^ 1024 - 2 ^ 970"

fun py_float :: "pyenv \<Rightarrow> pyval \<Rightarrow> exc_class + pyfloat" where
  "py_float E PNone = Inl TypeError"
| "py_float E (PStr s) = (case float_str E s of None \<Rightarrow> Inl ValueError | Some f \<Rightarrow> Inr f)"
| "py_float E (PBytes b) = (case float_str E b of None \<Rightarrow> Inl ValueError | Some f \<Rightarrow> Inr f)"
| "py_float E (PInt n) =
     (if float_limit \<le> \<bar>n\<bar> then Inl OverflowError else Inr (Finite (of_int n)))"
| "py_float E (PFloat f) = Inr f"
| "py_float E (PList xs) = Inl TypeError"

text \<open>\<^verbatim>\<open>str(value)\<close>: a str is its own text.\<close>

fun py_str :: "pyenv \<Rightarrow> pyval \<Rightarrow> string" where
  "py_str E (PStr s) = s"
| "py_str E v = str_obj E v"

text \<open>
  Iteration, \<^verbatim>\<open>for x in value\<close>: a list yields its elements, a str its
  characters as one-character strs, bytes its bytes as ints; \<open>None\<close> is the
  \<^verbatim>\<open>TypeError\<close> of an object that is not iterable.
\<close>

fun py_iter :: "pyval \<Rightarrow> pyval list option" where
  "py_iter (PList xs) = Some xs"
| "py_iter (PStr s) = Some (map (\<lambda>c. PStr [c]) s)"
| "py_iter (PBytes b) = Some (map (\<lambda>c. PInt (int (of_char c))) b)"
| "py_iter v = None"

text \<open>A list comprehension stops at the first element that raises.\<close>

fun collect :: "('e + 'a) list \<Rightarrow> 'e + 'a list" where
  "collect [] = Inr []"
| "collect (Inl e # rs) = Inl e"
| "collect (Inr a # rs) = (case collect rs of Inl e \<Rightarrow> Inl e | Inr as \<Rightarrow> Inr (a # as))"

text \<open>\<^verbatim>\<open>needle in text\<close> on strs.\<close>

fun str_in :: "string \<Rightarrow> string \<Rightarrow> bool" where
  "str_in n [] = (n = [])"
| "str_in n (c # cs) = (take (length n) (c # cs) = n \<or> str_in n cs)"

section \<open>\<^verbatim>\<open>safe_value\<close>\<close>

text \<open>
  \<^verbatim>\<open>
  def safe_value(value):
      if hasattr(value, '__iter__') and not isinstance(value, (str, bytes, dict)):
          return [safe_value(x) for x in value]
      if isinstance(value, bytes):
          return str(value)
      try:
          return float(value)
      except (ValueError, TypeError):
          return str(value)
  \<close>
  Of the modelled values only a list has \<^verbatim>\<open>__iter__\<close> without being a str or
  bytes. The handler names two classes; the \<^verbatim>\<open>OverflowError\<close> of a huge int
  leaves the function.
\<close>

fun safe_value :: "pyenv \<Rightarrow> pyval \<Rightarrow> pyexc + json" where
  "safe_value E (PList xs) =
     (case collect (map (safe_value E) xs) of
        Inl e \<Rightarrow> Inl e
      | Inr js \<Rightarrow> Inr (JList js))"
| "safe_value E (PBytes b) = Inr (JStr (py_str E (PBytes b)))"
| "safe_value E v =
     (case py_float E v of
        Inr f \<Rightarrow> Inr (JNum f)
      | Inl c \<Rightarrow>
          if c = ValueError \<or> c = TypeError then Inr (JStr (py_str E v))
          else Inl (PyExc c ''int too large to convert to float''))"

section \<open>The statements of \<^verbatim>\<open>extract_metadata\<close>\<close>

text \<open>
  Between \<^verbatim>\<open>metadata = {}\<close> and the write, the function is a sequence of
  statements over the dict, one of which also prints. Each statement is a step on
  the frame below that either raises, leaving the frame as it was, or returns
  the new frame.
\<close>

record frame =
  metadata :: jdoc
  printed :: "string list"

type_synonym step = "frame \<Rightarrow> pyexc + frame"

text \<open>\<^verbatim>\<open>metadata[key] = j\<close>\<close>

definition assign :: "string \<Rightarrow> json \<Rightarrow> frame \<Rightarrow> frame" where
  "assign key j s = s\<lparr>metadata := AList.update key j (metadata s)\<rparr>"

text \<open>
  \<^verbatim>\<open>
  if hasattr(dcm, 'Manufacturer'):
      metadata['manufacturer'] = safe_value(dcm.Manufacturer)
  \<close>
  and the nine statements of the same shape.
\<close>

definition safe_field :: "pyenv \<Rightarrow> dataset \<Rightarrow> string \<Rightarrow> string \<Rightarrow> step" where
  "safe_field E dcm attr key s =
     (case dcm attr of
        Absent \<Rightarrow> Inr s
      | Faulty e \<Rightarrow> Inl e
      | Present v \<Rightarrow>
          (case safe_value E v of
             Inl e \<Rightarrow> Inl e
           | Inr j \<Rightarrow> Inr (assign key j s)))"

text \<open>
  \<^verbatim>\<open>
  if hasattr(dcm, 'MagneticFieldStrength'):
      try:
          metadata['fieldStrength'] = float(dcm.MagneticFieldStrength)
      except:
          print ("WARN: MagneticFieldStrength not present. Default of 3.0 being applied")
          metadata['fieldStrength'] = 3.0
  \<close>
\<close>

definition field_strength_warning :: string where
  "field_strength_warning =
     ''WARN: MagneticFieldStrength not present. Default of 3.0 being applied''"

definition field_strength :: "pyenv \<Rightarrow> dataset \<Rightarrow> step" where
  "field_strength E dcm s =
     (case dcm ''MagneticFieldStrength'' of
        Absent \<Rightarrow> Inr s
      | Faulty e \<Rightarrow> Inl e
      | Present v \<Rightarrow>
          (case py_float E v of
             Inr f \<Rightarrow> Inr (assign ''fieldStrength'' (JNum f) s)
           | Inl c \<Rightarrow>
               Inr (assign ''fieldStrength'' (JNum (Finite 3))
                      (s\<lparr>printed := printed s @ [field_strength_warning]\<rparr>))))"

text \<open>
  \<^verbatim>\<open>
  try:
      if hasattr(dcm, 'Private_0019_10e0'):
          metadata['is3D'] = True
  except:
      pass
  \<close>
\<close>

definition private_flag :: "dataset \<Rightarrow> step" where
  "private_flag dcm s =
     (case dcm ''Private_0019_10e0'' of
        Present v \<Rightarrow> Inr (assign ''is3D'' (JBool True) s)
      | Faulty e \<Rightarrow> Inr s
      | Absent \<Rightarrow> Inr s)"

text \<open>
  \<^verbatim>\<open>
  is_3d = False
  if hasattr(dcm, 'SeriesDescription'):
      desc = str(dcm.SeriesDescription).upper()
      if '3D' in desc or 'MPRAGE' in desc or 'SPACE' in desc:
          is_3d = True
  if hasattr(dcm, 'SequenceName'):
      seq = str(dcm.SequenceName).upper()
      if '3D' in seq or 'MPRAGE' in seq or 'SPACE' in seq:
          is_3d = True
  if is_3d:
      metadata['is3D'] = True
  \<close>
\<close>

definition names_3d :: "string \<Rightarrow> bool" where
  "names_3d text = (str_in ''3D'' text \<or> str_in ''MPRAGE'' text \<or> str_in ''SPACE'' text)"

definition detect_3d :: "pyenv \<Rightarrow> dataset \<Rightarrow> step" where
  "detect_3d E dcm s =
     (case dcm ''SeriesDescription'' of
        Faulty e \<Rightarrow> Inl e
      | l1 \<Rightarrow>
          (case dcm ''SequenceName'' of
             Faulty e \<Rightarrow> Inl e
           | l2 \<Rightarrow>
               (let is_3d =
                      ((case l1 of Present v \<Rightarrow> names_3d (str_upper E (py_str E v)) | _ \<Rightarrow> False)
                       \<or> (case l2 of Present v \<Rightarrow> names_3d (str_upper E (py_str E v)) | _ \<Rightarrow> False))
                in if is_3d then Inr (assign ''is3D'' (JBool True) s) else Inr s)))"

text \<open>
  \<^verbatim>\<open>
  if hasattr(dcm, 'SliceThickness'):
      try:
          metadata['sliceThickness'] = float(dcm.SliceThickness)
      except:
          pass
  \<close>
  and the four statements of the same shape.
\<close>

definition float_field :: "pyenv \<Rightarrow> dataset \<Rightarrow> string \<Rightarrow> string \<Rightarrow> step" where
  "float_field E dcm attr key s =
     (case dcm attr of
        Absent \<Rightarrow> Inr s
      | Faulty e \<Rightarrow> Inl e
      | Present v \<Rightarrow>
          (case py_float E v of
             Inr f \<Rightarrow> Inr (assign key (JNum f) s)
           | Inl c \<Rightarrow> Inr s))"

text \<open>
  \<^verbatim>\<open>
  if hasattr(dcm, 'PixelSpacing'):
      try:
          metadata['pixelSpacing'] = [float(x) for x in dcm.PixelSpacing]
      except:
          pass
  \<close>
\<close>

definition pixel_spacing :: "pyenv \<Rightarrow> dataset \<Rightarrow> step" where
  "pixel_spacing E dcm s =
     (case dcm ''PixelSpacing'' of
        Absent \<Rightarrow> Inr s
      | Faulty e \<Rightarrow> Inl e
      | Present v \<Rightarrow>
          (case py_iter v of
             None \<Rightarrow> Inr s
           | Some xs \<Rightarrow>
               (case collect (map (py_float E) xs) of
                  Inl c \<Rightarrow> Inr s
                | Inr fs \<Rightarrow> Inr (assign ''pixelSpacing'' (JList (map JNum fs)) s))))"

text \<open>
  \<^verbatim>\<open>
  if hasattr(dcm, 'ManufacturerModelName') and 'MAGNETOM Sola' in str(dcm.ManufacturerModelName):
      metadata['isMagnetomSola'] = True
  \<close>
\<close>

definition magnetom_sola :: "pyenv \<Rightarrow> dataset \<Rightarrow> step" where
  "magnetom_sola E dcm s =
     (case dcm ''ManufacturerModelName'' of
        Absent \<Rightarrow> Inr s
      | Faulty e \<Rightarrow> Inl e
      | Present v \<Rightarrow>
          (if str_in ''MAGNETOM Sola'' (py_str E v)
           then Inr (assign ''isMagnetomSola'' (JBool True) s) else Inr s))"

text \<open>The statements in the order of the source, lines 41 to 127.\<close>

definition field_steps :: "pyenv \<Rightarrow> dataset \<Rightarrow> step list" where
  "field_steps E dcm =
     [safe_field E dcm ''Manufacturer'' ''manufacturer'',
      safe_field E dcm ''ManufacturerModelName'' ''modelName'',
      field_strength E dcm,
      safe_field E dcm ''ProtocolName'' ''protocolName'',
      safe_field E dcm ''SeriesDescription'' ''seriesDescription'',
      safe_field E dcm ''SequenceName'' ''sequenceName'',
      safe_field E dcm ''ScanningSequence'' ''scanningSequence'',
      safe_field E dcm ''SequenceVariant'' ''sequenceVariant'',
      safe_field E dcm ''ImageType'' ''imageType'',
      safe_field E dcm ''MRAcquisitionType'' ''acquisitionType'',
      private_flag dcm,
      detect_3d E dcm,
      float_field E dcm ''SliceThickness'' ''sliceThickness'',
      float_field E dcm ''RepetitionTime'' ''TR'',
      float_field E dcm ''EchoTime'' ''TE'',
      float_field E dcm ''FlipAngle'' ''flipAngle'',
      float_field E dcm ''SpacingBetweenSlices'' ''spacingBetweenSlices'',
      pixel_spacing E dcm,
      magnetom_sola E dcm]"

text \<open>
  Running the statements in order: the first one that raises ends the run, with
  the frame as it was before that statement.
\<close>

fun run_steps :: "step list \<Rightarrow> frame \<Rightarrow> pyexc option \<times> frame" where
  "run_steps [] s = (None, s)"
| "run_steps (f # fs) s =
     (case f s of
        Inl e \<Rightarrow> (Some e, s)
      | Inr s' \<Rightarrow> run_steps fs s')"

section \<open>\<^verbatim>\<open>extract_metadata\<close> and the command line\<close>

text \<open>
  How a call of \<^verbatim>\<open>extract_metadata\<close> ends: it returns a code, it calls
  \<^verbatim>\<open>exit(code)\<close> (which raises \<^verbatim>\<open>SystemExit\<close> and never returns to the caller), or
  an exception leaves it.
\<close>

datatype outcome = Returned int | SysExit int | Raised pyexc

text \<open>The body of the \<^verbatim>\<open>try\<close>, lines 17 to 135: the exception it raises, or the code it returns.\<close>

definition try_body :: "pyenv \<Rightarrow> string \<Rightarrow> string \<Rightarrow> world \<Rightarrow> (pyexc + int) \<times> world" where
  "try_body E dicom_path output_path w =
     (case import_pydicom E of
        Some e \<Rightarrow> (Inl e, w)
      | None \<Rightarrow>
          (let w1 = print_line (''Reading DICOM file: '' @ dicom_path) w in
           case dcmread E (files w1 dicom_path) of
             Inl e \<Rightarrow> (Inl e, w1)
           | Inr dcm \<Rightarrow>
               (let w2 = print_line ''Successfully read DICOM file'' w1 in
                case run_steps (field_steps E dcm) \<lparr>metadata = [], printed = []\<rparr> of
                  (Some e, s) \<Rightarrow> (Inl e, w2\<lparr>stdout := stdout w2 @ printed s\<rparr>)
                | (None, s) \<Rightarrow>
                    (let w3 = print_line (''Writing metadata to: '' @ output_path)
                                (w2\<lparr>stdout := stdout w2 @ printed s\<rparr>) in
                     case write_json output_path (metadata s) w3 of
                       Inl e \<Rightarrow> (Inl e, w3)
                     | Inr w4 \<Rightarrow> (Inr 0, print_line ''SUCCESS'' w4)))))"

text \<open>The document both handlers write, lines 141 to 146 and 155 to 160.\<close>

definition fallback_doc :: "string \<Rightarrow> jdoc" where
  "fallback_doc err =
     [(''manufacturer'', JStr ''Unknown''),
      (''fieldStrength'', JInt 3),
      (''modelName'', JStr ''Unknown''),
      (''error'', JStr err)]"

text \<open>
  The two handlers. An exception raised inside a handler is not caught by the
  other one: it leaves the function.
\<close>

definition extract_metadata :: "pyenv \<Rightarrow> string \<Rightarrow> string \<Rightarrow> world \<Rightarrow> outcome \<times> world" where
  "extract_metadata E dicom_path output_path w =
     (case try_body E dicom_path output_path w of
        (Inr code, w') \<Rightarrow> (Returned code, w')
      | (Inl e, w') \<Rightarrow>
          if exc_class_of e = ImportError then
            (let w1 = print_line (''ImportError: '' @ message e) w' in
             case write_json output_path (fallback_doc ''pydicom module not installed'') w1 of
               Inl e' \<Rightarrow> (Raised e', w1)
             | Inr w2 \<Rightarrow>
                 (SysExit 1,
                  print_line ''extract_dicom_metadata.py: FATAL: PYDICOM_NOT_FOUND'' w2))
          else
            (let w1 = print_line (''Error: '' @ message e) w' in
             case write_json output_path (fallback_doc (message e)) w1 of
               Inl e' \<Rightarrow> (Raised e', w1)
             | Inr w2 \<Rightarrow> (Returned 2, print_line (''ERROR: '' @ message e) w2)))"

text \<open>
  The block under \<^verbatim>\<open>if __name__ == "__main__"\<close>, on \<^verbatim>\<open>sys.argv\<close>: the exit
  status of the process and the world it leaves. \<^verbatim>\<open>sys.exit(code)\<close> ends the
  process with that status; an exception nobody catches ends it with status 1.
\<close>

definition usage_line :: "string \<Rightarrow> string" where
  "usage_line prog = ''Usage: '' @ prog @ '' <input_dicom_file> <output_json_file>''"

definition missing_input_line :: "string \<Rightarrow> string" where
  "missing_input_line input_file =
     ''ERROR: Input file '' @ [CHR 0x27] @ input_file @ [CHR 0x27] @ '' does not exist''"

definition main :: "pyenv \<Rightarrow> string list \<Rightarrow> world \<Rightarrow> int \<times> world" where
  "main E argv w =
     (if length argv \<noteq> 3 then
        (case argv of
           [] \<Rightarrow> (1, w)
         | prog # args \<Rightarrow> (1, print_line (usage_line prog) w))
      else
        (let input_file = argv ! 1; output_file = argv ! 2 in
         if \<not> isfile w input_file then (1, print_line (missing_input_line input_file) w)
         else
           (case extract_metadata E input_file output_file w of
              (Returned code, w') \<Rightarrow> (code, w')
            | (SysExit code, w') \<Rightarrow> (code, w')
            | (Raised e, w') \<Rightarrow> (1, w'))))"

section \<open>The vocabulary of the specification\<close>

text \<open>
  The keys of a document, and the document a run left at a path.
\<close>

definition keys_of :: "jdoc \<Rightarrow> string set" where
  "keys_of doc = fst ` set doc"

definition document_at :: "world \<Rightarrow> string \<Rightarrow> jdoc option" where
  "document_at w path = (case files w path of Some (Json doc) \<Rightarrow> Some doc | _ \<Rightarrow> None)"

text \<open>
  A text contains a word case-insensitively when the word, in lower case, is a
  contiguous part of the text in lower case: some part of the text is the word
  letter for letter, whatever the case of each letter.
\<close>

definition lower_char :: "char \<Rightarrow> char" where
  "lower_char c =
     (let n = (of_char c :: nat)
      in if 65 \<le> n \<and> n \<le> 90 then char_of (n + 32) else c)"

definition contains_ci :: "string \<Rightarrow> string \<Rightarrow> bool" where
  "contains_ci word text = sublist (map lower_char word) (map lower_char text)"

text \<open>
  The condition the specification gives for \<^verbatim>\<open>is3D\<close>: the private flag is present,
  or the series description or the sequence name contains, in any case, one of
  \<^verbatim>\<open>3D\<close>, \<^verbatim>\<open>MPRAGE\<close>, \<^verbatim>\<open>SPACE\<close>.
\<close>

definition mentions_3d :: "string \<Rightarrow> bool" where
  "mentions_3d text =
     (contains_ci ''3D'' text \<or> contains_ci ''MPRAGE'' text \<or> contains_ci ''SPACE'' text)"

definition flagged_3d :: "pyenv \<Rightarrow> dataset \<Rightarrow> bool" where
  "flagged_3d E dcm =
     ((\<exists>v. dcm ''Private_0019_10e0'' = Present v)
      \<or> (\<exists>v. dcm ''SeriesDescription'' = Present v \<and> mentions_3d (py_str E v))
      \<or> (\<exists>v. dcm ''SequenceName'' = Present v \<and> mentions_3d (py_str E v)))"

text \<open>
  The condition the code tests: the private flag is present, or the upper-cased
  text of the series description or of the sequence name contains one of the
  three words.
\<close>

definition upper_flagged_3d :: "pyenv \<Rightarrow> dataset \<Rightarrow> bool" where
  "upper_flagged_3d E dcm =
     ((\<exists>v. dcm ''Private_0019_10e0'' = Present v)
      \<or> (\<exists>v. dcm ''SeriesDescription'' = Present v \<and> names_3d (str_upper E (py_str E v)))
      \<or> (\<exists>v. dcm ''SequenceName'' = Present v \<and> names_3d (str_upper E (py_str E v))))"

text \<open>
  ASCII text, and its upper-casing: the letters \<^verbatim>\<open>a\<close> to \<^verbatim>\<open>z\<close> become \<^verbatim>\<open>A\<close> to
  \<^verbatim>\<open>Z\<close>. An interpreter is plain on ASCII when its \<^verbatim>\<open>str.upper\<close> does just that
  to ASCII text, as Python's does; a record has ASCII names when the texts of
  its series description and sequence name are ASCII.
\<close>

definition is_ascii :: "string \<Rightarrow> bool" where
  "is_ascii text = list_all (\<lambda>c. (of_char c :: nat) < 128) text"

definition ascii_upper_char :: "char \<Rightarrow> char" where
  "ascii_upper_char c =
     (let n = (of_char c :: nat)
      in if 97 \<le> n \<and> n \<le> 122 then char_of (n - 32) else c)"

definition ascii_upper :: "string \<Rightarrow> string" where
  "ascii_upper text = map ascii_upper_char text"

definition plain_on_ascii :: "pyenv \<Rightarrow> bool" where
  "plain_on_ascii E = (\<forall>text. is_ascii text \<longrightarrow> str_upper E text = ascii_upper text)"

definition ascii_names :: "pyenv \<Rightarrow> dataset \<Rightarrow> bool" where
  "ascii_names E dcm =
     ((\<forall>v. dcm ''SeriesDescription'' = Present v \<longrightarrow> is_ascii (py_str E v))
      \<and> (\<forall>v. dcm ''SequenceName'' = Present v \<longrightarrow> is_ascii (py_str E v)))"


text \<open>
  A JSON number is finite. \<^verbatim>\<open>json.dump\<close> writes a NaN or an infinity as the
  tokens \<^verbatim>\<open>NaN\<close>, \<^verbatim>\<open>Infinity\<close>, \<^verbatim>\<open>-Infinity\<close>, which are not JSON; every other
  value of a document is written as JSON. So the text written for a document is
  valid JSON exactly when every number in it is finite.
\<close>

fun is_finite :: "pyfloat \<Rightarrow> bool" where
  "is_finite (Finite q) = True"
| "is_finite f = False"

fun finite_json :: "json \<Rightarrow> bool" where
  "finite_json (JNum f) = is_finite f"
| "finite_json (JList js) = list_all finite_json js"
| "finite_json j = True"

definition valid_json :: "jdoc \<Rightarrow> bool" where
  "valid_json doc = list_all (\<lambda>kv. finite_json (snd kv)) doc"

text \<open>
  No float conversion the script can apply to a value gives a NaN or an infinity:
  \<^verbatim>\<open>float\<close> of the value itself, of the elements of a list at any depth, and of
  the items a str or bytes object yields when iterated.
\<close>

definition converts_finite :: "pyenv \<Rightarrow> pyval \<Rightarrow> bool" where
  "converts_finite E v = (case py_float E v of Inr f \<Rightarrow> is_finite f | Inl c \<Rightarrow> True)"

fun finite_floats :: "pyenv \<Rightarrow> pyval \<Rightarrow> bool" where
  "finite_floats E (PList xs) = list_all (finite_floats E) xs"
| "finite_floats E v =
     (converts_finite E v \<and>
      (case py_iter v of None \<Rightarrow> True | Some xs \<Rightarrow> list_all (converts_finite E) xs))"

definition finite_record :: "pyenv \<Rightarrow> dataset \<Rightarrow> bool" where
  "finite_record E dcm = (\<forall>a v. dcm a = Present v \<longrightarrow> finite_floats E v)"

text \<open>
  What the float statements give for a key: the float of the attribute when it
  is present and converts, no entry otherwise; for the field strength, 3.0
  when the attribute is present and does not convert.
\<close>

definition float_entry :: "pyenv \<Rightarrow> dataset \<Rightarrow> string \<Rightarrow> json option" where
  "float_entry E dcm attr =
     (case dcm attr of
        Present v \<Rightarrow> (case py_float E v of Inr f \<Rightarrow> Some (JNum f) | Inl c \<Rightarrow> None)
      | _ \<Rightarrow> None)"

definition strength_entry :: "pyenv \<Rightarrow> dataset \<Rightarrow> json option" where
  "strength_entry E dcm =
     (case dcm ''MagneticFieldStrength'' of
        Present v \<Rightarrow>
          (case py_float E v of Inr f \<Rightarrow> Some (JNum f) | Inl c \<Rightarrow> Some (JNum (Finite 3)))
      | _ \<Rightarrow> None)"

definition spacing_entry :: "pyenv \<Rightarrow> dataset \<Rightarrow> json option" where
  "spacing_entry E dcm =
     (case dcm ''PixelSpacing'' of
        Present v \<Rightarrow>
          (case py_iter v of
             None \<Rightarrow> None
           | Some xs \<Rightarrow>
               (case collect (map (py_float E) xs) of
                  Inl c \<Rightarrow> None
                | Inr fs \<Rightarrow> Some (JList (map JNum fs))))
      | _ \<Rightarrow> None)"

section \<open>The run as a function of what it reads\<close>

text \<open>A statement leaves a key alone: the entry under the key is the same after it.\<close>

definition untouched :: "string \<Rightarrow> step \<Rightarrow> bool" where
  "untouched k f = (\<forall>s s'. f s = Inr s' \<longrightarrow> map_of (metadata s') k = map_of (metadata s) k)"

text \<open>
  How a run ends and the document it leaves, as a function of what the script
  reads from the world: the result of decoding the input and whether the output
  path can be opened. \<open>extract_metadata\<close> is shown below to agree with it.
\<close>

definition handler :: "pyexc \<Rightarrow> pyexc option \<Rightarrow> outcome \<times> jdoc option" where
  "handler e oe =
     (case oe of
        Some e' \<Rightarrow> (Raised e', None)
      | None \<Rightarrow>
          if exc_class_of e = ImportError
          then (SysExit 1, Some (fallback_doc ''pydicom module not installed''))
          else (Returned 2, Some (fallback_doc (message e))))"

definition verdict :: "pyenv \<Rightarrow> pyexc + dataset \<Rightarrow> pyexc option \<Rightarrow> outcome \<times> jdoc option" where
  "verdict E decoded oe =
     (case import_pydicom E of
        Some e \<Rightarrow> handler e oe
      | None \<Rightarrow>
          (case decoded of
             Inl e \<Rightarrow> handler e oe
           | Inr dcm \<Rightarrow>
               (case run_steps (field_steps E dcm) \<lparr>metadata = [], printed = []\<rparr> of
                  (Some e, s) \<Rightarrow> handler e oe
                | (None, s) \<Rightarrow>
                    (case oe of
                       Some e \<Rightarrow> handler e oe
                     | None \<Rightarrow> (Returned 0, Some (metadata s))))))"




section \<open>An interpreter and files for the examples\<close>

text \<open>
  The examples run in an interpreter that parses ASCII text as \<^verbatim>\<open>float\<close> does:
  blanks around the text are dropped, an underscore may stand between two
  digits, the words \<^verbatim>\<open>inf\<close>, \<^verbatim>\<open>infinity\<close> and \<^verbatim>\<open>nan\<close> are read in any case, a
  number has digits, an optional point and an optional exponent, and a value
  beyond the doubles is an infinity.
\<close>

definition is_blank :: "char \<Rightarrow> bool" where
  "is_blank c = ((of_char c :: nat) \<in> {9, 10, 11, 12, 13, 28, 29, 30, 31, 32})"

definition strip :: "string \<Rightarrow> string" where
  "strip s = rev (dropWhile is_blank (rev (dropWhile is_blank s)))"

definition is_digit :: "char \<Rightarrow> bool" where
  "is_digit c = (48 \<le> (of_char c :: nat) \<and> (of_char c :: nat) \<le> 57)"

fun digits_value :: "nat \<Rightarrow> string \<Rightarrow> nat" where
  "digits_value acc [] = acc"
| "digits_value acc (c # cs) = digits_value (10 * acc + (of_char c - 48)) cs"

fun underscores :: "char option \<Rightarrow> string \<Rightarrow> string option" where
  "underscores prev [] = Some []"
| "underscores prev (c # cs) =
     (if c = CHR ''_'' then
        (case (prev, cs) of
           (Some p, d # ds) \<Rightarrow>
             if is_digit p \<and> is_digit d then underscores (Some c) cs else None
         | _ \<Rightarrow> None)
      else map_option ((#) c) (underscores (Some c) cs))"

definition signed :: "string \<Rightarrow> bool \<times> string" where
  "signed s =
     (case s of
        [] \<Rightarrow> (False, s)
      | c # t \<Rightarrow>
          if c = CHR ''-'' then (True, t) else if c = CHR ''+'' then (False, t) else (False, s))"

definition exponent :: "string \<Rightarrow> int option" where
  "exponent s =
     (case s of
        [] \<Rightarrow> Some 0
      | e # t \<Rightarrow>
          if e = CHR ''e'' \<or> e = CHR ''E'' then
            (let (neg, ds) = signed t
             in if ds \<noteq> [] \<and> list_all is_digit ds
                then Some (if neg then - int (digits_value 0 ds) else int (digits_value 0 ds))
                else None)
          else None)"

definition decimal :: "string \<Rightarrow> rat option" where
  "decimal s =
     (let ip = takeWhile is_digit s;
          r1 = dropWhile is_digit s;
          fp = (case r1 of [] \<Rightarrow> [] | c # t \<Rightarrow> if c = CHR ''.'' then takeWhile is_digit t else []);
          r2 = (case r1 of [] \<Rightarrow> [] | c # t \<Rightarrow> if c = CHR ''.'' then dropWhile is_digit t else r1)
      in if ip = [] \<and> fp = [] then None
         else
           (case exponent r2 of
              None \<Rightarrow> None
            | Some ex \<Rightarrow>
                (let m = of_nat (digits_value 0 (ip @ fp)); k = ex - int (length fp)
                 in Some (if 0 \<le> k then m * 10 ^ nat k else m / 10 ^ nat (- k)))))"

definition round_double :: "rat \<Rightarrow> pyfloat" where
  "round_double q =
     (if of_int float_limit \<le> q then PosInf
      else if q \<le> - of_int float_limit then NegInf
      else Finite q)"

definition float_ascii :: "string \<Rightarrow> pyfloat option" where
  "float_ascii text =
     (case underscores None (strip text) of
        None \<Rightarrow> None
      | Some s \<Rightarrow>
          (let (neg, body) = signed s; word = map lower_char body
           in if word = ''inf'' \<or> word = ''infinity'' then Some (if neg then NegInf else PosInf)
              else if word = ''nan'' then Some NaN
              else map_option (\<lambda>q. round_double (if neg then - q else q)) (decimal body)))"

text \<open>
  \<^verbatim>\<open>str.upper\<close> in the examples: the letters \<^verbatim>\<open>a\<close> to \<^verbatim>\<open>z\<close> become capitals, the
  letter U+00DF becomes \<^verbatim>\<open>SS\<close> as in Python, and every other character of the
  examples is one that \<^verbatim>\<open>str.upper\<close> keeps.
\<close>

definition upper_example_char :: "char \<Rightarrow> string" where
  "upper_example_char c =
     (let n = (of_char c :: nat)
      in if 97 \<le> n \<and> n \<le> 122 then [char_of (n - 32)]
         else if n = 223 then ''SS''
         else [c])"

definition upper_example :: "string \<Rightarrow> string" where
  "upper_example text = concat (map upper_example_char text)"

text \<open>
  The decoding library of the examples reads every file of raw bytes as one
  given dataset, and raises on anything else. The example datasets hold strs,
  floats and \<^verbatim>\<open>None\<close>, so \<^verbatim>\<open>str\<close> meets no object but a str or \<^verbatim>\<open>None\<close>.
\<close>

definition reads_as :: "dataset \<Rightarrow> fcontent option \<Rightarrow> pyexc + dataset" where
  "reads_as dcm c =
     (case c of
        Some (Raw bytes) \<Rightarrow> Inr dcm
      | Some (Json doc) \<Rightarrow> Inl (PyExc OtherError ''not a DICOM file'')
      | None \<Rightarrow> Inl (PyExc OSError ''no such file''))"

definition example_env :: "dataset \<Rightarrow> pyenv" where
  "example_env dcm =
     \<lparr>import_pydicom = None, dcmread = reads_as dcm,
      float_str = float_ascii, str_obj = (\<lambda>v. ''None''), str_upper = upper_example\<rparr>"

definition example_world :: world where
  "example_world =
     \<lparr>files = [''scan.dcm'' \<mapsto> Raw ''DICM''], open_error = Map.empty, stdout = []\<rparr>"

definition no_attributes :: dataset where
  "no_attributes = (\<lambda>a. Absent)"

definition ax_3d_space :: dataset where
  "ax_3d_space = no_attributes(''SeriesDescription'' := Present (PStr ''AX 3D SPACE T2''))"

definition ax_t2_flair :: dataset where
  "ax_t2_flair = no_attributes
     (''SeriesDescription'' := Present (PStr ''AX T2 FLAIR''),
      ''SequenceName'' := Present (PStr ''se2d1''))"

text \<open>A series description of five characters: the letter U+00DF, then \<^verbatim>\<open>PACE\<close>.\<close>

definition sharp_s_scan :: dataset where
  "sharp_s_scan = no_attributes(''SeriesDescription'' := Present (PStr (CHR 0xDF # ''PACE'')))"

text \<open>An interpreter without the decoding library, and a world whose output path is refused.\<close>

definition no_pydicom_env :: pyenv where
  "no_pydicom_env =
     (example_env no_attributes)
       \<lparr>import_pydicom := Some (PyExc ImportError ''No module named pydicom'')\<rparr>"


text \<open>
  Example records: one whose field strength is empty, whose repetition time is
  not a number and whose other numbers are finite; one with NaN values; one with
  an infinite echo time.
\<close>

definition mixed_scan :: dataset where
  "mixed_scan = no_attributes
     (''MagneticFieldStrength'' := Present PNone,
      ''SliceThickness'' := Present (PFloat (Finite (3 / 2))),
      ''RepetitionTime'' := Present (PStr ''abc''),
      ''PixelSpacing'' := Present (PList [PFloat (Finite (1 / 2)), PStr ''0.5'']))"

definition nan_scan :: dataset where
  "nan_scan = no_attributes
     (''Manufacturer'' := Present (PStr ''nan''),
      ''SliceThickness'' := Present (PFloat NaN))"


text \<open>
  Example records for the scanner model, and one with a manufacturer and a slice
  thickness but no field strength.
\<close>

definition sola_scan :: dataset where
  "sola_scan = no_attributes(''ManufacturerModelName'' := Present (PStr ''MAGNETOM Sola''))"


definition siemens_scan :: dataset where
  "siemens_scan = no_attributes
     (''Manufacturer'' := Present (PStr ''SIEMENS''),
      ''SliceThickness'' := Present (PFloat (Finite 1)))"

section \<open>Evaluating the examples\<close>

lemmas float_ascii_eval =
  float_ascii_def strip_def is_blank_def decimal_def is_digit_def lower_char_def
  exponent_def signed_def round_double_def float_limit_def

lemmas step_defs =
  safe_field_def field_strength_def private_flag_def detect_3d_def float_field_def
  pixel_spacing_def magnetom_sola_def assign_def names_3d_def

lemmas upper_eval = upper_example_def upper_example_char_def

lemmas run_defs =
  extract_metadata_def try_body_def write_json_def print_line_def field_steps_def

section \<open>Running the statements\<close>

lemma run_steps_append:
  "run_steps (fs @ gs) s =
     (case run_steps fs s of (Some e, s') \<Rightarrow> (Some e, s') | (None, s') \<Rightarrow> run_steps gs s')"
  by (induction fs arbitrary: s) (auto split: sum.splits)

lemma run_steps_untouched:
  "list_all (untouched k) fs \<Longrightarrow> run_steps fs s = (r, s') \<Longrightarrow>
   map_of (metadata s') k = map_of (metadata s) k"
proof (induction fs arbitrary: s)
  case Nil
  then show ?case by simp
next
  case (Cons f fs)
  show ?case
  proof (cases "f s")
    case (Inl e)
    with Cons.prems show ?thesis by simp
  next
    case (Inr s1)
    with Cons.prems have "untouched k f" and "list_all (untouched k) fs"
      and "run_steps fs s1 = (r, s')" by simp_all
    with Cons.IH Inr show ?thesis by (metis untouched_def)
  qed
qed

lemma map_of_assign:
  "map_of (metadata (assign key j s)) k = (if k = key then Some j else map_of (metadata s) k)"
  by (simp add: assign_def update_conv')

lemma printed_assign [simp]: "printed (assign key j s) = printed s"
  by (simp add: assign_def)

lemma untouched_safe_field: "k \<noteq> key \<Longrightarrow> untouched k (safe_field E dcm attr key)"
  by (auto simp: untouched_def safe_field_def map_of_assign split: lookup.splits sum.splits)

lemma untouched_float_field: "k \<noteq> key \<Longrightarrow> untouched k (float_field E dcm attr key)"
  by (auto simp: untouched_def float_field_def map_of_assign split: lookup.splits sum.splits)

lemma untouched_field_strength: "k \<noteq> ''fieldStrength'' \<Longrightarrow> untouched k (field_strength E dcm)"
  by (auto simp: untouched_def field_strength_def map_of_assign split: lookup.splits sum.splits)

lemma untouched_private_flag: "k \<noteq> ''is3D'' \<Longrightarrow> untouched k (private_flag dcm)"
  by (auto simp: untouched_def private_flag_def map_of_assign split: lookup.splits)

lemma untouched_detect_3d: "k \<noteq> ''is3D'' \<Longrightarrow> untouched k (detect_3d E dcm)"
  by (auto simp: untouched_def detect_3d_def map_of_assign Let_def split: lookup.splits if_splits)

lemma untouched_pixel_spacing: "k \<noteq> ''pixelSpacing'' \<Longrightarrow> untouched k (pixel_spacing E dcm)"
  by (auto simp: untouched_def pixel_spacing_def map_of_assign
      split: lookup.splits option.splits sum.splits)

lemma untouched_magnetom_sola: "k \<noteq> ''isMagnetomSola'' \<Longrightarrow> untouched k (magnetom_sola E dcm)"
  by (auto simp: untouched_def magnetom_sola_def map_of_assign split: lookup.splits if_splits)

lemmas untouched_steps =
  untouched_safe_field untouched_float_field untouched_field_strength untouched_private_flag
  untouched_detect_3d untouched_pixel_spacing untouched_magnetom_sola

lemma error_untouched: "list_all (untouched ''error'') (field_steps E dcm)"
  by (simp add: field_steps_def untouched_steps)

lemma run_steps_segment:
  assumes "run_steps (fs @ hs @ gs) s = (None, s')"
    and "list_all (untouched k) fs" and "list_all (untouched k) gs"
  shows "\<exists>s1 s2. run_steps hs s1 = (None, s2)
           \<and> map_of (metadata s1) k = map_of (metadata s) k
           \<and> map_of (metadata s') k = map_of (metadata s2) k"
proof -
  obtain r1 s1 where r1: "run_steps fs s = (r1, s1)" by (cases "run_steps fs s")
  obtain r2 s2 where r2: "run_steps hs s1 = (r2, s2)" by (cases "run_steps hs s1")
  from assms(1) r1 have "r1 = None" and rest: "run_steps (hs @ gs) s1 = (None, s')"
    by (auto simp: run_steps_append split: option.splits)
  from rest r2 have "r2 = None" and last: "run_steps gs s2 = (None, s')"
    by (auto simp: run_steps_append split: option.splits)
  from run_steps_untouched [OF assms(2) r1] run_steps_untouched [OF assms(3) last] r2 \<open>r2 = None\<close>
  show ?thesis by blast
qed

lemma extract_success:
  assumes "extract_metadata E dp op w = (Returned 0, w')"
  shows "\<exists>dcm s. import_pydicom E = None \<and> dcmread E (files w dp) = Inr dcm
           \<and> run_steps (field_steps E dcm) \<lparr>metadata = [], printed = []\<rparr> = (None, s)
           \<and> open_error w op = None
           \<and> files w' = (files w)(op \<mapsto> Json (metadata s))"
  using assms
  by (auto simp: extract_metadata_def try_body_def write_json_def print_line_def Let_def
      split: option.splits sum.splits prod.splits if_splits)

lemma take_prefix: "take (length n) s = n \<longleftrightarrow> prefix n s"
  by (metis append_eq_conv_conj prefix_def)

lemma str_in_sublist: "str_in n s \<longleftrightarrow> sublist n s"
  by (induction s) (auto simp: sublist_Cons_right take_prefix simp del: take_Suc_Cons)

lemma lower_ascii_upper_char: "lower_char (ascii_upper_char c) = lower_char c"
  by (auto simp: lower_char_def ascii_upper_char_def Let_def)

lemma upper_lower_char: "ascii_upper_char (lower_char c) = ascii_upper_char c"
  by (auto simp: lower_char_def ascii_upper_char_def Let_def)

lemma upper_contains_ci:
  assumes "map ascii_upper_char word = word"
  shows "str_in word (ascii_upper text) \<longleftrightarrow> contains_ci word text"
proof
  assume "str_in word (ascii_upper text)"
  then have "sublist word (map ascii_upper_char text)" by (simp add: str_in_sublist ascii_upper_def)
  from map_mono_sublist [OF this, of lower_char]
  show "contains_ci word text" by (simp add: contains_ci_def lower_ascii_upper_char comp_def)
next
  assume "contains_ci word text"
  then have "sublist (map lower_char word) (map lower_char text)" by (simp add: contains_ci_def)
  from map_mono_sublist [OF this, of ascii_upper_char]
  have "sublist (map ascii_upper_char word) (map ascii_upper_char text)" by (simp add: upper_lower_char comp_def)
  with assms show "str_in word (ascii_upper text)" by (simp add: str_in_sublist ascii_upper_def)
qed

lemma names_3d_mentions: "names_3d (ascii_upper text) \<longleftrightarrow> mentions_3d text"
proof -
  have "map ascii_upper_char ''3D'' = ''3D''" "map ascii_upper_char ''MPRAGE'' = ''MPRAGE''"
    "map ascii_upper_char ''SPACE'' = ''SPACE''"
    by (simp_all add: ascii_upper_char_def)
  then show ?thesis by (simp add: names_3d_def mentions_3d_def upper_contains_ci)
qed

lemma private_flag_is3d:
  "private_flag dcm s = Inr s' \<Longrightarrow>
   map_of (metadata s') ''is3D'' =
     (if (\<exists>v. dcm ''Private_0019_10e0'' = Present v) then Some (JBool True)
      else map_of (metadata s) ''is3D'')"
  by (auto simp: private_flag_def map_of_assign split: lookup.splits)

lemma detect_3d_is3d:
  "detect_3d E dcm s = Inr s' \<Longrightarrow>
   map_of (metadata s') ''is3D'' =
     (if (\<exists>v. dcm ''SeriesDescription'' = Present v \<and> names_3d (str_upper E (py_str E v)))
         \<or> (\<exists>v. dcm ''SequenceName'' = Present v \<and> names_3d (str_upper E (py_str E v)))
      then Some (JBool True) else map_of (metadata s) ''is3D'')"
  by (auto simp: detect_3d_def map_of_assign Let_def split: lookup.splits if_splits)

lemma field_steps_is3d:
  "field_steps E dcm =
     take 10 (field_steps E dcm) @ [private_flag dcm, detect_3d E dcm] @ drop 12 (field_steps E dcm)"
  by (simp add: field_steps_def)

lemma run_is3d:
  assumes "run_steps (field_steps E dcm) \<lparr>metadata = [], printed = []\<rparr> = (None, s)"
  shows "map_of (metadata s) ''is3D'' = (if upper_flagged_3d E dcm then Some (JBool True) else None)"
proof -
  have pre: "list_all (untouched ''is3D'') (take 10 (field_steps E dcm))"
    and post: "list_all (untouched ''is3D'') (drop 12 (field_steps E dcm))"
    by (simp_all add: field_steps_def untouched_steps)
  from assms have "run_steps (take 10 (field_steps E dcm) @ [private_flag dcm, detect_3d E dcm]
      @ drop 12 (field_steps E dcm)) \<lparr>metadata = [], printed = []\<rparr> = (None, s)"
    using field_steps_is3d [of E dcm] by simp
  from run_steps_segment [OF this pre post]
  obtain s1 s2 where seg: "run_steps [private_flag dcm, detect_3d E dcm] s1 = (None, s2)"
    and s1: "map_of (metadata s1) ''is3D'' = None"
    and s2: "map_of (metadata s) ''is3D'' = map_of (metadata s2) ''is3D''"
    by auto
  from seg obtain s3 where p: "private_flag dcm s1 = Inr s3" and d: "detect_3d E dcm s3 = Inr s2"
    by (auto split: sum.splits)
  from private_flag_is3d [OF p] detect_3d_is3d [OF d] s1 s2
  show ?thesis by (auto simp: upper_flagged_3d_def)
qed

lemma upper_flagged_ascii:
  assumes "plain_on_ascii E" and "ascii_names E dcm"
  shows "upper_flagged_3d E dcm \<longleftrightarrow> flagged_3d E dcm"
proof -
  have "names_3d (str_upper E (py_str E v)) \<longleftrightarrow> mentions_3d (py_str E v)"
    if "is_ascii (py_str E v)" for v
  proof -
    from assms(1) that have "str_upper E (py_str E v) = ascii_upper (py_str E v)"
      by (simp add: plain_on_ascii_def)
    then show ?thesis by (simp add: names_3d_mentions)
  qed
  with assms(2) show ?thesis
    unfolding upper_flagged_3d_def flagged_3d_def ascii_names_def by blast
qed

lemma upper_example_ascii: "is_ascii cs \<Longrightarrow> upper_example cs = ascii_upper cs"
  by (induction cs)
     (auto simp: is_ascii_def upper_example_def upper_example_char_def ascii_upper_def
        ascii_upper_char_def Let_def)

lemma example_env_plain: "plain_on_ascii (example_env dcm)"
  by (simp add: plain_on_ascii_def example_env_def upper_example_ascii)

lemma run_steps_invariant:
  assumes "\<And>f s s'. f \<in> set fs \<Longrightarrow> P s \<Longrightarrow> f s = Inr s' \<Longrightarrow> P s'"
    and "P s" and "run_steps fs s = (r, s')"
  shows "P s'"
  using assms
proof (induction fs arbitrary: s)
  case Nil
  then show ?case by simp
next
  case (Cons f fs)
  show ?case
  proof (cases "f s")
    case (Inl e)
    with Cons.prems(2,3) show ?thesis by simp
  next
    case (Inr s1)
    from Cons.prems(1) [of f s s1] Cons.prems(2) Inr have "P s1" by simp
    moreover from Cons.prems(3) Inr have "run_steps fs s1 = (r, s')" by simp
    moreover have "\<And>g t t'. g \<in> set fs \<Longrightarrow> P t \<Longrightarrow> g t = Inr t' \<Longrightarrow> P t'"
      using Cons.prems(1) by (meson list.set_intros(2))
    ultimately show ?thesis using Cons.IH by blast
  qed
qed

lemma run_key_owner:
  assumes run: "run_steps (field_steps E dcm) \<lparr>metadata = [], printed = []\<rparr> = (None, s)"
    and parts: "field_steps E dcm = fs @ [f] @ gs"
    and pre: "list_all (untouched k) fs" and post: "list_all (untouched k) gs"
    and eff: "\<And>s1 s2. f s1 = Inr s2 \<Longrightarrow> map_of (metadata s1) k = None \<Longrightarrow> map_of (metadata s2) k = x"
  shows "map_of (metadata s) k = x"
proof -
  from run have "run_steps (fs @ [f] @ gs) \<lparr>metadata = [], printed = []\<rparr> = (None, s)"
    unfolding parts .
  from run_steps_segment [OF this pre post]
  obtain s1 s2 where one: "run_steps [f] s1 = (None, s2)"
    and before: "map_of (metadata s1) k = None"
    and after: "map_of (metadata s) k = map_of (metadata s2) k"
    by auto
  from one have "f s1 = Inr s2" by (cases "f s1") simp_all
  from eff [OF this before] after show ?thesis by simp
qed

lemma float_field_entry:
  "float_field E dcm attr key s1 = Inr s2 \<Longrightarrow> map_of (metadata s1) key = None \<Longrightarrow>
   map_of (metadata s2) key = float_entry E dcm attr"
  by (auto simp: float_field_def float_entry_def map_of_assign split: lookup.splits sum.splits)

lemma run_slice_thickness:
  assumes "run_steps (field_steps E dcm) \<lparr>metadata = [], printed = []\<rparr> = (None, s)"
  shows "map_of (metadata s) ''sliceThickness'' = float_entry E dcm ''SliceThickness''"
  by (rule run_key_owner [OF assms _ _ _ float_field_entry, where fs = "take 12 (field_steps E dcm)"
          and gs = "drop 13 (field_steps E dcm)"])
     (simp_all add: field_steps_def untouched_steps)

lemma run_repetition_time:
  assumes "run_steps (field_steps E dcm) \<lparr>metadata = [], printed = []\<rparr> = (None, s)"
  shows "map_of (metadata s) ''TR'' = float_entry E dcm ''RepetitionTime''"
  by (rule run_key_owner [OF assms _ _ _ float_field_entry, where fs = "take 13 (field_steps E dcm)"
          and gs = "drop 14 (field_steps E dcm)"])
     (simp_all add: field_steps_def untouched_steps)

lemma run_echo_time:
  assumes "run_steps (field_steps E dcm) \<lparr>metadata = [], printed = []\<rparr> = (None, s)"
  shows "map_of (metadata s) ''TE'' = float_entry E dcm ''EchoTime''"
  by (rule run_key_owner [OF assms _ _ _ float_field_entry, where fs = "take 14 (field_steps E dcm)"
          and gs = "drop 15 (field_steps E dcm)"])
     (simp_all add: field_steps_def untouched_steps)

lemma run_flip_angle:
  assumes "run_steps (field_steps E dcm) \<lparr>metadata = [], printed = []\<rparr> = (None, s)"
  shows "map_of (metadata s) ''flipAngle'' = float_entry E dcm ''FlipAngle''"
  by (rule run_key_owner [OF assms _ _ _ float_field_entry, where fs = "take 15 (field_steps E dcm)"
          and gs = "drop 16 (field_steps E dcm)"])
     (simp_all add: field_steps_def untouched_steps)

lemma run_spacing_between_slices:
  assumes "run_steps (field_steps E dcm) \<lparr>metadata = [], printed = []\<rparr> = (None, s)"
  shows "map_of (metadata s) ''spacingBetweenSlices'' = float_entry E dcm ''SpacingBetweenSlices''"
  by (rule run_key_owner [OF assms _ _ _ float_field_entry, where fs = "take 16 (field_steps E dcm)"
          and gs = "drop 17 (field_steps E dcm)"])
     (simp_all add: field_steps_def untouched_steps)

lemma pixel_spacing_entry:
  "pixel_spacing E dcm s1 = Inr s2 \<Longrightarrow> map_of (metadata s1) ''pixelSpacing'' = None \<Longrightarrow>
   map_of (metadata s2) ''pixelSpacing'' = spacing_entry E dcm"
  by (auto simp: pixel_spacing_def spacing_entry_def map_of_assign
      split: lookup.splits sum.splits option.splits)

lemma run_pixel_spacing:
  assumes "run_steps (field_steps E dcm) \<lparr>metadata = [], printed = []\<rparr> = (None, s)"
  shows "map_of (metadata s) ''pixelSpacing'' = spacing_entry E dcm"
  by (rule run_key_owner [OF assms _ _ _ pixel_spacing_entry, where fs = "take 17 (field_steps E dcm)"
          and gs = "drop 18 (field_steps E dcm)"])
     (simp_all add: field_steps_def untouched_steps)



lemma field_strength_entry:
  "field_strength E dcm s1 = Inr s2 \<Longrightarrow> map_of (metadata s1) ''fieldStrength'' = None \<Longrightarrow>
   map_of (metadata s2) ''fieldStrength'' = strength_entry E dcm"
  by (auto simp: field_strength_def strength_entry_def map_of_assign split: lookup.splits sum.splits)

lemma run_field_strength:
  assumes "run_steps (field_steps E dcm) \<lparr>metadata = [], printed = []\<rparr> = (None, s)"
  shows "map_of (metadata s) ''fieldStrength'' = strength_entry E dcm"
  by (rule run_key_owner [OF assms _ _ _ field_strength_entry, where fs = "take 2 (field_steps E dcm)"
          and gs = "drop 3 (field_steps E dcm)"])
     (simp_all add: field_steps_def untouched_steps)

lemma run_error:
  assumes "run_steps (field_steps E dcm) \<lparr>metadata = [], printed = []\<rparr> = (r, s)"
  shows "map_of (metadata s) ''error'' = None"
  using run_steps_untouched [OF error_untouched assms] by simp

section \<open>How a run ends\<close>

lemma extract_verdict:
  "fst (extract_metadata E dp op w) = fst (verdict E (dcmread E (files w dp)) (open_error w op))
   \<and> files (snd (extract_metadata E dp op w)) =
       (case snd (verdict E (dcmread E (files w dp)) (open_error w op)) of
          None \<Rightarrow> files w
        | Some doc \<Rightarrow> (files w)(op \<mapsto> Json doc))
   \<and> open_error (snd (extract_metadata E dp op w)) = open_error w"
  by (simp add: extract_metadata_def try_body_def write_json_def print_line_def Let_def
      verdict_def handler_def split: option.splits sum.splits prod.splits)

lemma verdict_ends:
  "fst (verdict E decoded oe) = Returned 0 \<or> fst (verdict E decoded oe) = SysExit 1
   \<or> fst (verdict E decoded oe) = Returned 2
   \<or> (\<exists>e. oe = Some e \<and> verdict E decoded oe = (Raised e, None))"
  by (auto simp: verdict_def handler_def split: option.splits sum.splits prod.splits)

lemma verdict_success:
  "fst (verdict E decoded oe) = Returned 0 \<Longrightarrow>
   \<exists>dcm s. decoded = Inr dcm \<and> oe = None \<and> import_pydicom E = None
     \<and> run_steps (field_steps E dcm) \<lparr>metadata = [], printed = []\<rparr> = (None, s)
     \<and> snd (verdict E decoded oe) = Some (metadata s)"
  by (auto simp: verdict_def handler_def split: option.splits sum.splits prod.splits if_splits)

lemma verdict_exit:
  "fst (verdict E decoded oe) = SysExit 1 \<Longrightarrow>
   snd (verdict E decoded oe) = Some (fallback_doc ''pydicom module not installed'')"
  by (auto simp: verdict_def handler_def split: option.splits sum.splits prod.splits if_splits)

lemma verdict_failure:
  "fst (verdict E decoded oe) = Returned 2 \<Longrightarrow>
   \<exists>e. snd (verdict E decoded oe) = Some (fallback_doc (message e))"
  by (auto simp: verdict_def handler_def split: option.splits sum.splits prod.splits if_splits)

lemma document_at_written:
  "files w' = (case d of None \<Rightarrow> files w | Some doc \<Rightarrow> (files w)(op \<mapsto> Json doc)) \<Longrightarrow>
   d = Some doc \<Longrightarrow> document_at w' op = Some doc"
  by (simp add: document_at_def)

lemma other_path_kept:
  "p \<noteq> op \<Longrightarrow> files (snd (extract_metadata E dp op w)) p = files w p"
  using extract_verdict [of E dp op w] by (auto split: option.splits)

lemma keys_fallback:
  "keys_of (fallback_doc err) = {''manufacturer'', ''fieldStrength'', ''modelName'', ''error''}"
  by (auto simp: keys_of_def fallback_doc_def)

lemma in_keys_of: "k \<in> keys_of doc \<longleftrightarrow> map_of doc k \<noteq> None"
  by (simp add: keys_of_def map_of_eq_None_iff)

lemma run_ax_3d_space:
  "extract_metadata (example_env ax_3d_space) ''scan.dcm'' ''out.json'' example_world =
     (Returned 0,
      \<lparr>files = [''scan.dcm'' \<mapsto> Raw ''DICM'',
                ''out.json'' \<mapsto> Json [(''seriesDescription'', JStr ''AX 3D SPACE T2''),
                                       (''is3D'', JBool True)]],
       open_error = Map.empty,
       stdout = [''Reading DICOM file: scan.dcm'', ''Successfully read DICOM file'',
                 ''Writing metadata to: out.json'', ''SUCCESS'']\<rparr>)"
  by (simp add: run_defs step_defs example_env_def example_world_def reads_as_def
      ax_3d_space_def no_attributes_def float_ascii_eval upper_eval)

lemma run_sharp_s_scan:
  "extract_metadata (example_env sharp_s_scan) ''scan.dcm'' ''out.json'' example_world =
     (Returned 0,
      \<lparr>files = [''scan.dcm'' \<mapsto> Raw ''DICM'',
                ''out.json'' \<mapsto> Json [(''seriesDescription'', JStr (CHR 0xDF # ''PACE'')),
                                       (''is3D'', JBool True)]],
       open_error = Map.empty,
       stdout = [''Reading DICOM file: scan.dcm'', ''Successfully read DICOM file'',
                 ''Writing metadata to: out.json'', ''SUCCESS'']\<rparr>)"
  by (simp add: run_defs step_defs example_env_def example_world_def reads_as_def
      sharp_s_scan_def no_attributes_def float_ascii_eval upper_eval)

lemma run_no_pydicom:
  "extract_metadata no_pydicom_env ''scan.dcm'' ''out.json'' example_world =
     (SysExit 1,
      \<lparr>files = [''scan.dcm'' \<mapsto> Raw ''DICM'',
                ''out.json'' \<mapsto> Json (fallback_doc ''pydicom module not installed'')],
       open_error = Map.empty,
       stdout = [''ImportError: No module named pydicom'',
                 ''extract_dicom_metadata.py: FATAL: PYDICOM_NOT_FOUND'']\<rparr>)"
  by (simp add: run_defs no_pydicom_env_def example_env_def example_world_def)

lemma run_missing_input:
  "extract_metadata (example_env no_attributes) ''missing.dcm'' ''out.json'' example_world =
     (Returned 2,
      \<lparr>files = [''scan.dcm'' \<mapsto> Raw ''DICM'',
                ''out.json'' \<mapsto> Json (fallback_doc ''no such file'')],
       open_error = Map.empty,
       stdout = [''Reading DICOM file: missing.dcm'', ''Error: no such file'',
                 ''ERROR: no such file'']\<rparr>)"
  by (simp add: run_defs example_env_def example_world_def reads_as_def)

section \<open>Finite numbers\<close>

lemma collect_Inr: "collect rs = Inr as \<Longrightarrow> rs = map Inr as"
proof (induction rs arbitrary: as)
  case Nil
  then show ?case by simp
next
  case (Cons r rs)
  then show ?case by (cases r) (auto split: sum.splits)
qed

lemma finite_floats_converts: "finite_floats E v \<Longrightarrow> converts_finite E v"
  by (cases v) (simp_all add: converts_finite_def)

lemma safe_value_finite:
  "finite_floats E v \<Longrightarrow> safe_value E v = Inr j \<Longrightarrow> finite_json j"
proof (induction v arbitrary: j)
  case (PList xs)
  from PList.prems(2) obtain js where js: "collect (map (safe_value E) xs) = Inr js"
    and j: "j = JList js"
    by (auto split: sum.splits)
  from collect_Inr [OF js] have each: "map (safe_value E) xs = map Inr js" .
  have "list_all finite_json js"
    unfolding list_all_length
  proof (intro allI impI)
    fix i assume i: "i < length js"
    from each have len: "length xs = length js" by (metis length_map)
    from each i len have "safe_value E (xs ! i) = Inr (js ! i)"
      by (metis nth_map)
    moreover from PList.prems(1) i len have "finite_floats E (xs ! i)"
      by (simp add: list_all_length)
    moreover from i len have "xs ! i \<in> set xs" by simp
    ultimately show "finite_json (js ! i)" using PList.IH by blast
  qed
  with j show ?case by simp
qed (auto simp: converts_finite_def split: sum.splits if_splits option.splits)

lemma list_all_update:
  "list_all P al \<Longrightarrow> P (k, v) \<Longrightarrow> list_all P (AList.update k v al)"
  by (induction al) auto

lemma valid_assign:
  "valid_json (metadata s) \<Longrightarrow> finite_json j \<Longrightarrow> valid_json (metadata (assign key j s))"
  by (simp add: valid_json_def assign_def list_all_update)

lemma valid_printed [simp]: "metadata (s\<lparr>printed := p\<rparr>) = metadata s"
  by simp

lemma iter_converts:
  assumes "finite_floats E v" and "py_iter v = Some xs"
  shows "list_all (converts_finite E) xs"
proof (cases v)
  case (PList ys)
  with assms have "xs = ys" and "\<forall>y\<in>set ys. finite_floats E y"
    by (simp_all add: list_all_iff)
  then show ?thesis
    unfolding list_all_iff using finite_floats_converts by blast
qed (use assms in simp_all)

lemma spacing_finite:
  assumes "finite_floats E v" and "py_iter v = Some xs"
    and "collect (map (py_float E) xs) = Inr fs"
  shows "finite_json (JList (map JNum fs))"
proof -
  have conv: "list_all (converts_finite E) xs"
    using assms(1,2) by (rule iter_converts)
  from collect_Inr [OF assms(3)] have each: "map (py_float E) xs = map Inr fs" .
  have "list_all is_finite fs"
    unfolding list_all_length
  proof (intro allI impI)
    fix i assume i: "i < length fs"
    from each have len: "length xs = length fs" by (metis length_map)
    from each i len have "py_float E (xs ! i) = Inr (fs ! i)" by (metis nth_map)
    moreover from conv i len have "converts_finite E (xs ! i)" by (simp add: list_all_length)
    ultimately show "is_finite (fs ! i)" by (simp add: converts_finite_def)
  qed
  then show ?thesis by (simp add: list_all_iff)
qed

lemma converted_finite: "finite_floats E v \<Longrightarrow> py_float E v = Inr f \<Longrightarrow> is_finite f"
  using finite_floats_converts [of E v] by (simp add: converts_finite_def)

lemma safe_field_valid:
  assumes "finite_record E dcm" and "safe_field E dcm a k t = Inr t'"
    and "valid_json (metadata t)"
  shows "valid_json (metadata t')"
proof (cases "dcm a")
  case (Present v)
  with assms(2) obtain j where j: "safe_value E v = Inr j" and t': "t' = assign k j t"
    by (auto simp: safe_field_def split: sum.splits)
  from assms(1) Present have "finite_floats E v" by (simp add: finite_record_def)
  from safe_value_finite [OF this j] assms(3) t' show ?thesis by (simp add: valid_assign)
qed (use assms in \<open>simp_all add: safe_field_def\<close>)

lemma float_field_valid:
  assumes "finite_record E dcm" and "float_field E dcm a k t = Inr t'"
    and "valid_json (metadata t)"
  shows "valid_json (metadata t')"
proof (cases "dcm a")
  case (Present v)
  from assms(1) Present have fin: "finite_floats E v" by (simp add: finite_record_def)
  show ?thesis
  proof (cases "py_float E v")
    case (Inl c)
    with Present assms(2,3) show ?thesis by (simp add: float_field_def)
  next
    case (Inr f)
    with Present assms(2) have "t' = assign k (JNum f) t" by (simp add: float_field_def)
    with converted_finite [OF fin Inr] assms(3) show ?thesis by (simp add: valid_assign)
  qed
qed (use assms in \<open>simp_all add: float_field_def\<close>)

lemma field_strength_valid:
  assumes "finite_record E dcm" and "field_strength E dcm t = Inr t'"
    and "valid_json (metadata t)"
  shows "valid_json (metadata t')"
proof (cases "dcm ''MagneticFieldStrength''")
  case (Present v)
  from assms(1) Present have fin: "finite_floats E v" by (simp add: finite_record_def)
  show ?thesis
  proof (cases "py_float E v")
    case (Inl c)
    with Present assms(2)
    have "t' = assign ''fieldStrength'' (JNum (Finite 3))
        (t\<lparr>printed := printed t @ [field_strength_warning]\<rparr>)"
      by (simp add: field_strength_def)
    with assms(3) show ?thesis by (simp add: valid_assign)
  next
    case (Inr f)
    with Present assms(2) have "t' = assign ''fieldStrength'' (JNum f) t"
      by (simp add: field_strength_def)
    with converted_finite [OF fin Inr] assms(3) show ?thesis by (simp add: valid_assign)
  qed
qed (use assms in \<open>simp_all add: field_strength_def\<close>)

lemma private_flag_valid:
  "private_flag dcm t = Inr t' \<Longrightarrow> valid_json (metadata t) \<Longrightarrow> valid_json (metadata t')"
  by (auto simp: private_flag_def valid_assign split: lookup.splits)

lemma detect_3d_valid:
  "detect_3d E dcm t = Inr t' \<Longrightarrow> valid_json (metadata t) \<Longrightarrow> valid_json (metadata t')"
  by (auto simp: detect_3d_def valid_assign Let_def split: lookup.splits if_splits)

lemma magnetom_sola_valid:
  "magnetom_sola E dcm t = Inr t' \<Longrightarrow> valid_json (metadata t) \<Longrightarrow> valid_json (metadata t')"
  by (auto simp: magnetom_sola_def valid_assign split: lookup.splits if_splits)

lemma pixel_spacing_valid:
  assumes "finite_record E dcm" and "pixel_spacing E dcm t = Inr t'"
    and "valid_json (metadata t)"
  shows "valid_json (metadata t')"
proof (cases "dcm ''PixelSpacing''")
  case (Present v)
  from assms(1) Present have fin: "finite_floats E v" by (simp add: finite_record_def)
  show ?thesis
  proof (cases "py_iter v")
    case None
    with Present assms(2,3) show ?thesis by (simp add: pixel_spacing_def)
  next
    case (Some xs)
    show ?thesis
    proof (cases "collect (map (py_float E) xs)")
      case (Inl c)
      with Present Some assms(2,3) show ?thesis by (simp add: pixel_spacing_def)
    next
      case (Inr fs)
      with Present Some assms(2) have "t' = assign ''pixelSpacing'' (JList (map JNum fs)) t"
        by (simp add: pixel_spacing_def)
      with spacing_finite [OF fin Some Inr] assms(3) show ?thesis
        by (simp only: valid_assign)
    qed
  qed
qed (use assms in \<open>simp_all add: pixel_spacing_def\<close>)

lemma steps_keep_valid:
  assumes "finite_record E dcm" and "f \<in> set (field_steps E dcm)"
    and "valid_json (metadata s)" and "f s = Inr s'"
  shows "valid_json (metadata s')"
proof -
  from assms(2) consider
      (safe) a k where "f = safe_field E dcm a k"
    | (float) a k where "f = float_field E dcm a k"
    | (strength) "f = field_strength E dcm"
    | (flag) "f = private_flag dcm"
    | (detect) "f = detect_3d E dcm"
    | (spacing) "f = pixel_spacing E dcm"
    | (sola) "f = magnetom_sola E dcm"
    unfolding field_steps_def by auto
  then show ?thesis
  proof cases
    case safe
    with assms show ?thesis using safe_field_valid by blast
  next
    case float
    with assms show ?thesis using float_field_valid by blast
  next
    case strength
    with assms show ?thesis using field_strength_valid by blast
  next
    case flag
    with assms show ?thesis using private_flag_valid by blast
  next
    case detect
    with assms show ?thesis using detect_3d_valid by blast
  next
    case spacing
    with assms show ?thesis using pixel_spacing_valid by blast
  next
    case sola
    with assms show ?thesis using magnetom_sola_valid by blast
  qed
qed

lemma run_valid:
  assumes "finite_record E dcm"
    and "run_steps (field_steps E dcm) \<lparr>metadata = [], printed = []\<rparr> = (r, s)"
  shows "valid_json (metadata s)"
proof (rule run_steps_invariant [where P = "\<lambda>s. valid_json (metadata s)", OF _ _ assms(2)])
  show "valid_json (metadata \<lparr>metadata = [], printed = []\<rparr>)" by (simp add: valid_json_def)
  show "\<And>f s s'. f \<in> set (field_steps E dcm) \<Longrightarrow> valid_json (metadata s) \<Longrightarrow>
      f s = Inr s' \<Longrightarrow> valid_json (metadata s')"
    using steps_keep_valid [OF assms(1)] by blast
qed


section \<open>Runs of the examples\<close>

lemma run_mixed_scan:
  "extract_metadata (example_env mixed_scan) ''scan.dcm'' ''out.json'' example_world =
     (Returned 0,
      \<lparr>files = [''scan.dcm'' \<mapsto> Raw ''DICM'',
                ''out.json'' \<mapsto> Json [(''fieldStrength'', JNum (Finite 3)),
                                       (''sliceThickness'', JNum (Finite (3 / 2))),
                                       (''pixelSpacing'',
                                        JList [JNum (Finite (1 / 2)), JNum (Finite (1 / 2))])]],
       open_error = Map.empty,
       stdout = [''Reading DICOM file: scan.dcm'', ''Successfully read DICOM file'',
                 field_strength_warning,
                 ''Writing metadata to: out.json'', ''SUCCESS'']\<rparr>)"
  by (simp add: run_defs step_defs example_env_def example_world_def reads_as_def
      mixed_scan_def no_attributes_def float_ascii_eval upper_eval)

lemma mixed_scan_finite: "finite_record (example_env mixed_scan) mixed_scan"
  by (auto simp: finite_record_def mixed_scan_def no_attributes_def example_env_def
      converts_finite_def float_ascii_eval split: if_splits)


lemma run_nan_scan:
  "extract_metadata (example_env nan_scan) ''scan.dcm'' ''out.json'' example_world =
     (Returned 0,
      \<lparr>files = [''scan.dcm'' \<mapsto> Raw ''DICM'',
                ''out.json'' \<mapsto> Json [(''manufacturer'', JNum NaN),
                                       (''sliceThickness'', JNum NaN)]],
       open_error = Map.empty,
       stdout = [''Reading DICOM file: scan.dcm'', ''Successfully read DICOM file'',
                 ''Writing metadata to: out.json'', ''SUCCESS'']\<rparr>)"
  by (simp add: run_defs step_defs example_env_def example_world_def reads_as_def
      nan_scan_def no_attributes_def float_ascii_eval upper_eval)






lemma run_sola_scan:
  "extract_metadata (example_env sola_scan) ''scan.dcm'' ''out.json'' example_world =
     (Returned 0,
      \<lparr>files = [''scan.dcm'' \<mapsto> Raw ''DICM'',
                ''out.json'' \<mapsto> Json [(''modelName'', JStr ''MAGNETOM Sola''),
                                       (''isMagnetomSola'', JBool True)]],
       open_error = Map.empty,
       stdout = [''Reading DICOM file: scan.dcm'', ''Successfully read DICOM file'',
                 ''Writing metadata to: out.json'', ''SUCCESS'']\<rparr>)"
  by (simp add: run_defs step_defs example_env_def example_world_def reads_as_def
      sola_scan_def no_attributes_def float_ascii_eval upper_eval)


lemma run_siemens_scan:
  "extract_metadata (example_env siemens_scan) ''scan.dcm'' ''out.json'' example_world =
     (Returned 0,
      \<lparr>files = [''scan.dcm'' \<mapsto> Raw ''DICM'',
                ''out.json'' \<mapsto> Json [(''manufacturer'', JStr ''SIEMENS''),
                                       (''sliceThickness'', JNum (Finite 1))]],
       open_error = Map.empty,
       stdout = [''Reading DICOM file: scan.dcm'', ''Successfully read DICOM file'',
                 ''Writing metadata to: out.json'', ''SUCCESS'']\<rparr>)"
  by (simp add: run_defs step_defs example_env_def example_world_def reads_as_def
      siemens_scan_def no_attributes_def float_ascii_eval upper_eval)

section \<open>The field strength\<close>

text \<open>
  An absent \<^verbatim>\<open>MagneticFieldStrength\<close> leaves no \<^verbatim>\<open>fieldStrength\<close> key; a present one
  that \<^verbatim>\<open>float\<close> refuses gives 3.0 and the warning.
\<close>

lemma absent_strength_no_key:
  assumes "dcmread E (files w dp) = Inr dcm"
    and "fst (extract_metadata E dp op w) = Returned 0"
    and "dcm ''MagneticFieldStrength'' = Absent"
  shows "\<exists>doc. document_at (snd (extract_metadata E dp op w)) op = Some doc
           \<and> ''fieldStrength'' \<notin> keys_of doc"
proof -
  obtain w' where run: "extract_metadata E dp op w = (Returned 0, w')"
    using assms(2) by (cases "extract_metadata E dp op w") simp
  from extract_success [OF run] assms(1)
  obtain s where steps: "run_steps (field_steps E dcm) \<lparr>metadata = [], printed = []\<rparr> = (None, s)"
    and written: "files w' = (files w)(op \<mapsto> Json (metadata s))"
    by auto
  have "document_at (snd (extract_metadata E dp op w)) op = Some (metadata s)"
    by (simp add: document_at_def written run)
  moreover from run_field_strength [OF steps] assms(3)
  have "''fieldStrength'' \<notin> keys_of (metadata s)"
    by (simp add: in_keys_of strength_entry_def)
  ultimately show ?thesis by blast
qed

lemma unconvertible_strength_defaults:
  assumes "dcm ''MagneticFieldStrength'' = Present v" and "py_float E v = Inl c"
  shows "field_strength E dcm s =
           Inr (assign ''fieldStrength'' (JNum (Finite 3))
                  (s\<lparr>printed := printed s @ [field_strength_warning]\<rparr>))"
    and "strength_entry E dcm = Some (JNum (Finite 3))"
  using assms by (simp_all add: field_strength_def strength_entry_def)

text \<open>The only codes \<^verbatim>\<open>extract_metadata\<close> returns are 0 and 2.\<close>

lemma returns_0_or_2:
  "fst (extract_metadata E dp op w) = Returned c \<Longrightarrow> c = 0 \<or> c = 2"
  using extract_verdict [of E dp op w]
    verdict_ends [of E "dcmread E (files w dp)" "open_error w op"]
  by auto

section \<open>A coercion that raises\<close>

lemma py_float_dcmread [simp]: "py_float (E\<lparr>dcmread := d\<rparr>) v = py_float E v"
  by (cases v) simp_all

lemma py_str_dcmread [simp]: "py_str (E\<lparr>dcmread := d\<rparr>) v = py_str E v"
  by (cases v) simp_all

lemma safe_value_dcmread [simp]: "safe_value (E\<lparr>dcmread := d\<rparr>) v = safe_value E v"
proof (induction v)
  case (PList xs)
  have "map (safe_value (E\<lparr>dcmread := d\<rparr>)) xs = map (safe_value E) xs"
    by (rule map_cong) (simp_all add: PList)
  then show ?case by (simp only: safe_value.simps)
qed (simp_all split: sum.splits option.splits)

lemma py_float_dcmread_fun [simp]: "py_float (E\<lparr>dcmread := d\<rparr>) = py_float E"
  by (rule ext) simp





























section \<open>The claims\<close>

text \<open>
  C1, at the input where the code departs from it: a record with no
  \<^verbatim>\<open>MagneticFieldStrength\<close> attribute. The run returns 0 and the document has no
  \<^verbatim>\<open>fieldStrength\<close> key, where the claim (and the text of the script's own
  warning, "MagneticFieldStrength not present. Default of 3.0 being applied")
  asks for 3.0.
\<close>

theorem absent_field_strength_omitted:
  "siemens_scan ''MagneticFieldStrength'' = Absent
   \<and> fst (extract_metadata (example_env siemens_scan) ''scan.dcm'' ''out.json'' example_world)
       = Returned 0
   \<and> document_at (snd (extract_metadata (example_env siemens_scan) ''scan.dcm'' ''out.json''
         example_world)) ''out.json''
       = Some [(''manufacturer'', JStr ''SIEMENS''), (''sliceThickness'', JNum (Finite 1))]
   \<and> ''fieldStrength'' \<notin> keys_of
         [(''manufacturer'', JStr ''SIEMENS''), (''sliceThickness'', JNum (Finite 1))]"
  by (simp add: run_siemens_scan document_at_def keys_of_def)
     (simp add: siemens_scan_def no_attributes_def)

text \<open>
  C2, as amended. For every input record and every run that returns 0, each of
  the keys \<^verbatim>\<open>sliceThickness\<close>, \<^verbatim>\<open>TR\<close>, \<^verbatim>\<open>TE\<close>, \<^verbatim>\<open>flipAngle\<close>,
  \<^verbatim>\<open>spacingBetweenSlices\<close> is in the document exactly when its attribute is
  present and \<^verbatim>\<open>float\<close> of the value succeeds, and then holds that float;
  \<^verbatim>\<open>pixelSpacing\<close> is there exactly when \<^verbatim>\<open>float\<close> succeeds on every item, and
  holds those floats; \<^verbatim>\<open>fieldStrength\<close> holds the float or, when the conversion
  raises, 3.0. A field whose conversion raises is never written as a number.
  The float is written as converted: when no value of the record converts to a
  NaN or an infinity, every number of the document is finite.
\<close>

theorem numbers_as_converted:
  assumes "dcmread E (files w dp) = Inr dcm"
    and "fst (extract_metadata E dp op w) = Returned 0"
  shows "\<exists>doc. document_at (snd (extract_metadata E dp op w)) op = Some doc
           \<and> map_of doc ''fieldStrength'' = strength_entry E dcm
           \<and> map_of doc ''sliceThickness'' = float_entry E dcm ''SliceThickness''
           \<and> map_of doc ''TR'' = float_entry E dcm ''RepetitionTime''
           \<and> map_of doc ''TE'' = float_entry E dcm ''EchoTime''
           \<and> map_of doc ''flipAngle'' = float_entry E dcm ''FlipAngle''
           \<and> map_of doc ''spacingBetweenSlices'' = float_entry E dcm ''SpacingBetweenSlices''
           \<and> map_of doc ''pixelSpacing'' = spacing_entry E dcm
           \<and> (finite_record E dcm \<longrightarrow> valid_json doc)"
proof -
  obtain w' where run: "extract_metadata E dp op w = (Returned 0, w')"
    using assms(2) by (cases "extract_metadata E dp op w") simp
  from extract_success [OF run] assms(1)
  obtain s where steps: "run_steps (field_steps E dcm) \<lparr>metadata = [], printed = []\<rparr> = (None, s)"
    and written: "files w' = (files w)(op \<mapsto> Json (metadata s))"
    by auto
  have doc: "document_at (snd (extract_metadata E dp op w)) op = Some (metadata s)"
    by (simp add: document_at_def written run)
  have valid: "finite_record E dcm \<longrightarrow> valid_json (metadata s)"
    using run_valid [OF _ steps] by blast
  show ?thesis
    using doc valid run_field_strength [OF steps] run_slice_thickness [OF steps]
      run_repetition_time [OF steps] run_echo_time [OF steps] run_flip_angle [OF steps]
      run_spacing_between_slices [OF steps] run_pixel_spacing [OF steps]
    by blast
qed


text \<open>
  The witness: an empty field strength (defaulted), a repetition time that is
  not a number (omitted), finite numbers elsewhere.
\<close>

theorem numbers_as_converted_witness:
  "dcmread (example_env mixed_scan) (files example_world ''scan.dcm'') = Inr mixed_scan
   \<and> fst (extract_metadata (example_env mixed_scan) ''scan.dcm'' ''out.json'' example_world)
       = Returned 0
   \<and> finite_record (example_env mixed_scan) mixed_scan
   \<and> (\<exists>doc. document_at (snd (extract_metadata (example_env mixed_scan)
                  ''scan.dcm'' ''out.json'' example_world)) ''out.json'' = Some doc
          \<and> map_of doc ''fieldStrength'' = Some (JNum (Finite 3))
          \<and> map_of doc ''sliceThickness'' = Some (JNum (Finite (3 / 2)))
          \<and> map_of doc ''TR'' = None
          \<and> map_of doc ''pixelSpacing''
              = Some (JList [JNum (Finite (1 / 2)), JNum (Finite (1 / 2))])
          \<and> valid_json doc)"
proof -
  have read: "dcmread (example_env mixed_scan) (files example_world ''scan.dcm'') = Inr mixed_scan"
    by (simp add: example_env_def example_world_def reads_as_def)
  have run: "fst (extract_metadata (example_env mixed_scan) ''scan.dcm'' ''out.json''
      example_world) = Returned 0"
    by (simp add: run_mixed_scan)
  have entries: "strength_entry (example_env mixed_scan) mixed_scan = Some (JNum (Finite 3))"
    "float_entry (example_env mixed_scan) mixed_scan ''SliceThickness''
       = Some (JNum (Finite (3 / 2)))"
    "float_entry (example_env mixed_scan) mixed_scan ''RepetitionTime'' = None"
    "spacing_entry (example_env mixed_scan) mixed_scan
       = Some (JList [JNum (Finite (1 / 2)), JNum (Finite (1 / 2))])"
    by (simp_all add: strength_entry_def float_entry_def spacing_entry_def mixed_scan_def
        no_attributes_def example_env_def float_ascii_eval)
  from numbers_as_converted [OF read run] read run mixed_scan_finite entries
  show ?thesis by auto
qed


text \<open>
  C2 as stated fails: a slice thickness that is the float NaN, and a
  manufacturer spelled \<^verbatim>\<open>nan\<close> (which \<^verbatim>\<open>float\<close> parses), are written as NaN by a
  run that returns 0.
\<close>

theorem nan_written_counterexample:
  "fst (extract_metadata (example_env nan_scan) ''scan.dcm'' ''out.json'' example_world)
     = Returned 0
   \<and> document_at (snd (extract_metadata (example_env nan_scan) ''scan.dcm'' ''out.json''
         example_world)) ''out.json''
       = Some [(''manufacturer'', JNum NaN), (''sliceThickness'', JNum NaN)]
   \<and> \<not> finite_json (JNum NaN)"
  by (simp add: run_nan_scan document_at_def)

text \<open>
  C3, as amended. For every input record, the key \<^verbatim>\<open>is3D\<close> is present in the
  Output Document (always with value true) if and only if the private 3D-flag
  attribute \<^verbatim>\<open>Private_0019_10e0\<close> is present, or the text of \<^verbatim>\<open>SeriesDescription\<close> or
  of \<^verbatim>\<open>SequenceName\<close>, upper-cased by \<^verbatim>\<open>str.upper\<close>, contains one of \<^verbatim>\<open>3D\<close>,
  \<^verbatim>\<open>MPRAGE\<close>, \<^verbatim>\<open>SPACE\<close>. When both texts are ASCII that is the same as containing
  one of the three words case-insensitively. The Output Document is the one a
  run that returns 0 writes for the record it decoded.
\<close>

theorem is3d_key_iff:
  assumes "dcmread E (files w dp) = Inr dcm"
    and "fst (extract_metadata E dp op w) = Returned 0"
  shows "\<exists>doc. document_at (snd (extract_metadata E dp op w)) op = Some doc
           \<and> (''is3D'' \<in> keys_of doc \<longleftrightarrow> upper_flagged_3d E dcm)
           \<and> (''is3D'' \<in> keys_of doc \<longrightarrow> map_of doc ''is3D'' = Some (JBool True))
           \<and> (plain_on_ascii E \<and> ascii_names E dcm \<longrightarrow>
                 (''is3D'' \<in> keys_of doc \<longleftrightarrow> flagged_3d E dcm))"
proof -
  obtain w' where run: "extract_metadata E dp op w = (Returned 0, w')"
    using assms(2) by (cases "extract_metadata E dp op w") simp
  from extract_success [OF run] assms(1)
  obtain s where steps: "run_steps (field_steps E dcm) \<lparr>metadata = [], printed = []\<rparr> = (None, s)"
    and written: "files w' = (files w)(op \<mapsto> Json (metadata s))"
    by auto
  have doc: "document_at (snd (extract_metadata E dp op w)) op = Some (metadata s)"
    by (simp add: document_at_def written run)
  have key: "''is3D'' \<in> keys_of (metadata s) \<longleftrightarrow> upper_flagged_3d E dcm"
    and true: "''is3D'' \<in> keys_of (metadata s) \<longrightarrow>
      map_of (metadata s) ''is3D'' = Some (JBool True)"
    using run_is3d [OF steps] by (simp_all add: in_keys_of)
  have ascii: "plain_on_ascii E \<and> ascii_names E dcm \<longrightarrow>
      (''is3D'' \<in> keys_of (metadata s) \<longleftrightarrow> flagged_3d E dcm)"
    using key upper_flagged_ascii [of E dcm] by blast
  from doc key true ascii show ?thesis by blast
qed

text \<open>
  The two examples of the claim, both ASCII: the series description
  \<^verbatim>\<open>AX 3D SPACE T2\<close> gives \<^verbatim>\<open>is3D\<close> = true; the series description \<^verbatim>\<open>AX T2 FLAIR\<close>
  with the sequence name \<^verbatim>\<open>se2d1\<close> and no private flag gives no \<^verbatim>\<open>is3D\<close> key.
\<close>

theorem is3d_key_iff_witness:
  "fst (extract_metadata (example_env ax_3d_space) ''scan.dcm'' ''out.json'' example_world)
     = Returned 0
   \<and> plain_on_ascii (example_env ax_3d_space)
   \<and> ascii_names (example_env ax_3d_space) ax_3d_space
   \<and> flagged_3d (example_env ax_3d_space) ax_3d_space
   \<and> (\<exists>doc. document_at (snd (extract_metadata (example_env ax_3d_space)
                  ''scan.dcm'' ''out.json'' example_world)) ''out.json'' = Some doc
          \<and> ''is3D'' \<in> keys_of doc \<and> map_of doc ''is3D'' = Some (JBool True))
   \<and> fst (extract_metadata (example_env ax_t2_flair) ''scan.dcm'' ''out.json'' example_world)
     = Returned 0
   \<and> plain_on_ascii (example_env ax_t2_flair)
   \<and> ascii_names (example_env ax_t2_flair) ax_t2_flair
   \<and> \<not> flagged_3d (example_env ax_t2_flair) ax_t2_flair
   \<and> (\<exists>doc. document_at (snd (extract_metadata (example_env ax_t2_flair)
                  ''scan.dcm'' ''out.json'' example_world)) ''out.json'' = Some doc
          \<and> ''is3D'' \<notin> keys_of doc)"
proof -
  have read1: "dcmread (example_env ax_3d_space) (files example_world ''scan.dcm'') = Inr ax_3d_space"
    and read2: "dcmread (example_env ax_t2_flair) (files example_world ''scan.dcm'') = Inr ax_t2_flair"
    by (simp_all add: example_env_def example_world_def reads_as_def)
  have run1: "fst (extract_metadata (example_env ax_3d_space) ''scan.dcm'' ''out.json''
      example_world) = Returned 0"
    by (simp add: run_ax_3d_space)
  have run2: "fst (extract_metadata (example_env ax_t2_flair) ''scan.dcm'' ''out.json''
      example_world) = Returned 0"
    by (simp add: run_defs step_defs example_env_def example_world_def reads_as_def
        ax_t2_flair_def no_attributes_def float_ascii_eval upper_eval)
  have plain1: "plain_on_ascii (example_env ax_3d_space)"
    and plain2: "plain_on_ascii (example_env ax_t2_flair)"
    by (rule example_env_plain)+
  have names1: "ascii_names (example_env ax_3d_space) ax_3d_space"
    by (simp add: ascii_names_def ax_3d_space_def no_attributes_def is_ascii_def)
  have names2: "ascii_names (example_env ax_t2_flair) ax_t2_flair"
    by (simp add: ascii_names_def ax_t2_flair_def no_attributes_def is_ascii_def)
  have "mentions_3d ''AX 3D SPACE T2''" by code_simp
  then have yes: "flagged_3d (example_env ax_3d_space) ax_3d_space"
    by (simp add: flagged_3d_def ax_3d_space_def no_attributes_def)
  have "\<not> mentions_3d ''AX T2 FLAIR''" and "\<not> mentions_3d ''se2d1''" by code_simp+
  then have no: "\<not> flagged_3d (example_env ax_t2_flair) ax_t2_flair"
    by (simp add: flagged_3d_def ax_t2_flair_def no_attributes_def)
  from is3d_key_iff [OF read1 run1] plain1 names1 yes
  have part1: "\<exists>doc. document_at (snd (extract_metadata (example_env ax_3d_space)
                  ''scan.dcm'' ''out.json'' example_world)) ''out.json'' = Some doc
          \<and> ''is3D'' \<in> keys_of doc \<and> map_of doc ''is3D'' = Some (JBool True)"
    by blast
  from is3d_key_iff [OF read2 run2] plain2 names2 no
  have part2: "\<exists>doc. document_at (snd (extract_metadata (example_env ax_t2_flair)
                  ''scan.dcm'' ''out.json'' example_world)) ''out.json'' = Some doc
          \<and> ''is3D'' \<notin> keys_of doc"
    by blast
  from run1 plain1 names1 yes part1 run2 plain2 names2 no part2 show ?thesis by blast
qed

text \<open>
  C3 as stated fails outside ASCII: the series description of five characters
  U+00DF, \<^verbatim>\<open>P\<close>, \<^verbatim>\<open>A\<close>, \<^verbatim>\<open>C\<close>, \<^verbatim>\<open>E\<close> contains none of the three words in any
  case (it has no letter \<^verbatim>\<open>S\<close>), yet \<^verbatim>\<open>str.upper\<close> turns it into \<^verbatim>\<open>SSPACE\<close> and the
  run writes \<^verbatim>\<open>is3D\<close> = true.
\<close>

theorem sharp_s_counterexample:
  "fst (extract_metadata (example_env sharp_s_scan) ''scan.dcm'' ''out.json'' example_world)
     = Returned 0
   \<and> document_at (snd (extract_metadata (example_env sharp_s_scan) ''scan.dcm'' ''out.json''
         example_world)) ''out.json''
       = Some [(''seriesDescription'', JStr (CHR 0xDF # ''PACE'')), (''is3D'', JBool True)]
   \<and> \<not> flagged_3d (example_env sharp_s_scan) sharp_s_scan"
proof -
  have "\<not> mentions_3d (CHR 0xDF # ''PACE'')" by code_simp
  then have "\<not> flagged_3d (example_env sharp_s_scan) sharp_s_scan"
    by (simp add: flagged_3d_def sharp_s_scan_def no_attributes_def)
  then show ?thesis by (simp add: run_sharp_s_scan document_at_def)
qed



text \<open>
  C5. When \<^verbatim>\<open>import pydicom\<close> raises \<^verbatim>\<open>ImportError\<close> and the output path can be
  opened, \<^verbatim>\<open>extract_metadata\<close> writes exactly the fallback document with the
  error text \<^verbatim>\<open>pydicom module not installed\<close>, as the claim says. It then calls
  \<^verbatim>\<open>exit(1)\<close> (line 148), which raises \<^verbatim>\<open>SystemExit\<close>: no code comes back to the
  caller, where the claim has the function return 1 and where the other two
  paths of the function return theirs (\<^verbatim>\<open>return 0\<close>, \<^verbatim>\<open>return 2\<close>) for the command
  line to pass to \<^verbatim>\<open>sys.exit\<close>. When the output path cannot be opened, the
  exception of the handler's own \<^verbatim>\<open>open\<close> leaves the function and no file is
  written.
\<close>

theorem missing_pydicom_exits:
  assumes "import_pydicom E = Some e" and "exc_class_of e = ImportError"
  shows "(open_error w op = None \<longrightarrow>
            fst (extract_metadata E dp op w) = SysExit 1
            \<and> files (snd (extract_metadata E dp op w)) =
                (files w)(op \<mapsto> Json (fallback_doc ''pydicom module not installed'')))
         \<and> (\<forall>e'. open_error w op = Some e' \<longrightarrow>
               fst (extract_metadata E dp op w) = Raised e'
               \<and> files (snd (extract_metadata E dp op w)) = files w)
         \<and> fst (extract_metadata E dp op w) \<noteq> Returned 1"
  using assms
  by (auto simp: extract_metadata_def try_body_def write_json_def print_line_def Let_def
      split: option.splits)

text \<open>The witness: the interpreter without the library, the output path free.\<close>

theorem missing_pydicom_exits_witness:
  "import_pydicom no_pydicom_env = Some (PyExc ImportError ''No module named pydicom'')
   \<and> open_error example_world ''out.json'' = None
   \<and> fst (extract_metadata no_pydicom_env ''scan.dcm'' ''out.json'' example_world) = SysExit 1
   \<and> files (snd (extract_metadata no_pydicom_env ''scan.dcm'' ''out.json'' example_world)) =
       (files example_world)(''out.json'' \<mapsto> Json (fallback_doc ''pydicom module not installed''))"
proof -
  have imp: "import_pydicom no_pydicom_env = Some (PyExc ImportError ''No module named pydicom'')"
    by (simp add: no_pydicom_env_def example_env_def)
  have cls: "exc_class_of (PyExc ImportError ''No module named pydicom'') = ImportError"
    by simp
  have free: "open_error example_world ''out.json'' = None"
    by (simp add: example_world_def)
  from missing_pydicom_exits [OF imp cls, of example_world "''out.json''" "''scan.dcm''"] imp free
  show ?thesis by simp
qed

text \<open>
  The failing input evaluated: with the library missing and the output path
  free, the call does not return 1, it ends in \<^verbatim>\<open>exit(1)\<close>.
\<close>

theorem missing_pydicom_failing_input:
  "import_pydicom no_pydicom_env = Some (PyExc ImportError ''No module named pydicom'')
   \<and> fst (extract_metadata no_pydicom_env ''scan.dcm'' ''out.json'' example_world) = SysExit 1
   \<and> fst (extract_metadata no_pydicom_env ''scan.dcm'' ''out.json'' example_world) \<noteq> Returned 1"
  by (simp add: run_no_pydicom) (simp add: no_pydicom_env_def example_env_def)







text \<open>
  C8. With an argument count other than two, the command line prints the usage
  line and exits with status 1, creating no file; with an input path that is
  not an existing regular file, it prints an error and exits with status 1,
  creating no file; otherwise it calls \<^verbatim>\<open>extract_metadata\<close> and the exit status is
  the code that call returned (and the status of \<^verbatim>\<open>exit\<close> when the call ended
  there, 1 when an exception left it).
\<close>

theorem cli_driver:
  "(length args \<noteq> 2 \<longrightarrow>
      main E (prog # args) w = (1, print_line (usage_line prog) w)
      \<and> files (snd (main E (prog # args) w)) = files w)
   \<and> (\<not> isfile w input_file \<longrightarrow>
        main E [prog, input_file, output_file] w
          = (1, print_line (missing_input_line input_file) w)
        \<and> files (snd (main E [prog, input_file, output_file] w)) = files w)
   \<and> (isfile w input_file \<longrightarrow>
        snd (main E [prog, input_file, output_file] w)
          = snd (extract_metadata E input_file output_file w)
        \<and> (\<forall>code. fst (extract_metadata E input_file output_file w) = Returned code \<longrightarrow>
              fst (main E [prog, input_file, output_file] w) = code)
        \<and> (\<forall>code. fst (extract_metadata E input_file output_file w) = SysExit code \<longrightarrow>
              fst (main E [prog, input_file, output_file] w) = code)
        \<and> (\<forall>e. fst (extract_metadata E input_file output_file w) = Raised e \<longrightarrow>
              fst (main E [prog, input_file, output_file] w) = 1))"
proof (intro conjI impI allI)
  assume "length args \<noteq> 2"
  then show "main E (prog # args) w = (1, print_line (usage_line prog) w)"
    by (simp add: main_def)
  then show "files (snd (main E (prog # args) w)) = files w"
    by (simp add: print_line_def)
next
  assume "\<not> isfile w input_file"
  then show "main E [prog, input_file, output_file] w
      = (1, print_line (missing_input_line input_file) w)"
    by (simp add: main_def)
  then show "files (snd (main E [prog, input_file, output_file] w)) = files w"
    by (simp add: print_line_def)
next
  assume "isfile w input_file"
  then show "snd (main E [prog, input_file, output_file] w)
      = snd (extract_metadata E input_file output_file w)"
    by (cases "extract_metadata E input_file output_file w")
       (auto simp: main_def split: outcome.splits)
next
  fix code
  assume "isfile w input_file"
    and "fst (extract_metadata E input_file output_file w) = Returned code"
  then show "fst (main E [prog, input_file, output_file] w) = code"
    by (cases "extract_metadata E input_file output_file w")
       (auto simp: main_def split: outcome.splits)
next
  fix code
  assume "isfile w input_file"
    and "fst (extract_metadata E input_file output_file w) = SysExit code"
  then show "fst (main E [prog, input_file, output_file] w) = code"
    by (cases "extract_metadata E input_file output_file w")
       (auto simp: main_def split: outcome.splits)
next
  fix e
  assume "isfile w input_file"
    and "fst (extract_metadata E input_file output_file w) = Raised e"
  then show "fst (main E [prog, input_file, output_file] w) = 1"
    by (cases "extract_metadata E input_file output_file w")
       (auto simp: main_def split: outcome.splits)
qed

text \<open>The witness: one argument, a missing input, a run that returns 0, a run that ends in \<^verbatim>\<open>exit(1)\<close>.\<close>

theorem cli_driver_witness:
  "length [''scan.dcm''] \<noteq> 2
   \<and> main (example_env sola_scan) [''extract.py'', ''scan.dcm''] example_world
       = (1, print_line (usage_line ''extract.py'') example_world)
   \<and> files (snd (main (example_env sola_scan) [''extract.py'', ''scan.dcm''] example_world))
       = files example_world
   \<and> \<not> isfile example_world ''missing.dcm''
   \<and> main (example_env sola_scan) [''extract.py'', ''missing.dcm'', ''out.json''] example_world
       = (1, print_line (missing_input_line ''missing.dcm'') example_world)
   \<and> files (snd (main (example_env sola_scan) [''extract.py'', ''missing.dcm'', ''out.json'']
         example_world)) = files example_world
   \<and> isfile example_world ''scan.dcm''
   \<and> fst (extract_metadata (example_env sola_scan) ''scan.dcm'' ''out.json'' example_world)
       = Returned 0
   \<and> fst (main (example_env sola_scan) [''extract.py'', ''scan.dcm'', ''out.json'']
         example_world) = 0
   \<and> fst (extract_metadata no_pydicom_env ''scan.dcm'' ''out.json'' example_world) = SysExit 1
   \<and> fst (main no_pydicom_env [''extract.py'', ''scan.dcm'', ''out.json''] example_world) = 1"
proof -
  have short: "length [''scan.dcm''] \<noteq> 2" by simp
  have missing: "\<not> isfile example_world ''missing.dcm''"
    and there: "isfile example_world ''scan.dcm''"
    by (simp_all add: isfile_def example_world_def)
  have run: "fst (extract_metadata (example_env sola_scan) ''scan.dcm'' ''out.json''
      example_world) = Returned 0"
    by (simp add: run_sola_scan)
  have gone: "fst (extract_metadata no_pydicom_env ''scan.dcm'' ''out.json'' example_world)
      = SysExit 1"
    by (simp add: run_no_pydicom)
  note usage = cli_driver [of "[''scan.dcm'']" "example_env sola_scan" "''extract.py''"
      example_world "''missing.dcm''" "''out.json''"]
  note found = cli_driver [of "[''scan.dcm'']" "example_env sola_scan" "''extract.py''"
      example_world "''scan.dcm''" "''out.json''"]
  note fatal = cli_driver [of "[''scan.dcm'']" no_pydicom_env "''extract.py''"
      example_world "''scan.dcm''" "''out.json''"]
  from usage short have a: "main (example_env sola_scan) [''extract.py'', ''scan.dcm'']
        example_world = (1, print_line (usage_line ''extract.py'') example_world)"
    "files (snd (main (example_env sola_scan) [''extract.py'', ''scan.dcm''] example_world))
       = files example_world"
    by blast+
  from usage missing have b:
    "main (example_env sola_scan) [''extract.py'', ''missing.dcm'', ''out.json''] example_world
       = (1, print_line (missing_input_line ''missing.dcm'') example_world)"
    "files (snd (main (example_env sola_scan) [''extract.py'', ''missing.dcm'', ''out.json'']
         example_world)) = files example_world"
    by blast+
  from found there run have c:
    "fst (main (example_env sola_scan) [''extract.py'', ''scan.dcm'', ''out.json'']
         example_world) = 0"
    by blast
  from fatal there gone have d:
    "fst (main no_pydicom_env [''extract.py'', ''scan.dcm'', ''out.json''] example_world) = 1"
    by blast
  from short a missing b there run c gone d show ?thesis by blast
qed

text \<open>
  C9. For every fixed input record, two runs of \<^verbatim>\<open>extract_metadata\<close> with the same
  input and output paths are deterministic: the second run ends as the first did
  and leaves the same files, so the output document is byte-identical. The
  record is the same in both runs when decoding the input path after the first
  run gives what it gave before; by \<open>other_path_kept\<close> that is so whenever the two
  paths differ.
\<close>

theorem rerun_same:
  assumes "dcmread E (files (snd (extract_metadata E dp op w)) dp) = dcmread E (files w dp)"
  shows "fst (extract_metadata E dp op (snd (extract_metadata E dp op w)))
           = fst (extract_metadata E dp op w)
         \<and> files (snd (extract_metadata E dp op (snd (extract_metadata E dp op w))))
           = files (snd (extract_metadata E dp op w))"
proof -
  define w1 where "w1 = snd (extract_metadata E dp op w)"
  define v where "v = verdict E (dcmread E (files w dp)) (open_error w op)"
  have first: "fst (extract_metadata E dp op w) = fst v"
    "files w1 = (case snd v of None \<Rightarrow> files w | Some doc \<Rightarrow> (files w)(op \<mapsto> Json doc))"
    "open_error w1 = open_error w"
    using extract_verdict [of E dp op w] by (simp_all add: w1_def v_def)
  have same: "verdict E (dcmread E (files w1 dp)) (open_error w1 op) = v"
    using assms first(3) by (simp add: w1_def v_def)
  have second: "fst (extract_metadata E dp op w1) = fst v"
    "files (snd (extract_metadata E dp op w1)) =
       (case snd v of None \<Rightarrow> files w1 | Some doc \<Rightarrow> (files w1)(op \<mapsto> Json doc))"
    using extract_verdict [of E dp op w1] same by simp_all
  have "files (snd (extract_metadata E dp op w1)) = files w1"
    using first(2) second(2) by (cases "snd v") simp_all
  with first(1) second(1) show ?thesis by (simp add: w1_def)
qed

text \<open>The witness: the input \<^verbatim>\<open>scan.dcm\<close> is not the output \<^verbatim>\<open>out.json\<close>.\<close>

theorem rerun_same_witness:
  "dcmread (example_env ax_3d_space)
       (files (snd (extract_metadata (example_env ax_3d_space) ''scan.dcm'' ''out.json''
          example_world)) ''scan.dcm'')
     = dcmread (example_env ax_3d_space) (files example_world ''scan.dcm'')
   \<and> fst (extract_metadata (example_env ax_3d_space) ''scan.dcm'' ''out.json''
        (snd (extract_metadata (example_env ax_3d_space) ''scan.dcm'' ''out.json''
           example_world)))
     = Returned 0
   \<and> files (snd (extract_metadata (example_env ax_3d_space) ''scan.dcm'' ''out.json''
        (snd (extract_metadata (example_env ax_3d_space) ''scan.dcm'' ''out.json''
           example_world))))
     = files (snd (extract_metadata (example_env ax_3d_space) ''scan.dcm'' ''out.json''
          example_world))"
proof -
  have kept: "files (snd (extract_metadata (example_env ax_3d_space) ''scan.dcm'' ''out.json''
      example_world)) ''scan.dcm'' = files example_world ''scan.dcm''"
    by (rule other_path_kept) simp
  have run: "fst (extract_metadata (example_env ax_3d_space) ''scan.dcm'' ''out.json''
      example_world) = Returned 0"
    by (simp add: run_defs step_defs example_env_def example_world_def reads_as_def
        ax_3d_space_def no_attributes_def float_ascii_eval upper_eval)
  from kept have same: "dcmread (example_env ax_3d_space)
       (files (snd (extract_metadata (example_env ax_3d_space) ''scan.dcm'' ''out.json''
          example_world)) ''scan.dcm'')
     = dcmread (example_env ax_3d_space) (files example_world ''scan.dcm'')"
    by simp
  from rerun_same [OF same] same run show ?thesis by simp
qed

text \<open>
  C10. For every run of \<^verbatim>\<open>extract_metadata\<close> that returns 0, the document it wrote
  has no key \<^verbatim>\<open>error\<close>; the documents written on the two fallback paths (the
  exit with status 1 and the return of 2) always have it.
\<close>

theorem error_key_marks_fallback:
  "(fst (extract_metadata E dp op w) = Returned 0 \<longrightarrow>
      (\<exists>doc. document_at (snd (extract_metadata E dp op w)) op = Some doc
         \<and> ''error'' \<notin> keys_of doc))
   \<and> (fst (extract_metadata E dp op w) = SysExit 1 \<or> fst (extract_metadata E dp op w) = Returned 2
        \<longrightarrow> (\<exists>doc. document_at (snd (extract_metadata E dp op w)) op = Some doc
               \<and> ''error'' \<in> keys_of doc))
   \<and> ''error'' \<in> keys_of (fallback_doc err)"
proof -
  define v where "v = verdict E (dcmread E (files w dp)) (open_error w op)"
  have ends: "fst (extract_metadata E dp op w) = fst v"
    and left: "\<And>doc. snd v = Some doc \<Longrightarrow>
      document_at (snd (extract_metadata E dp op w)) op = Some doc"
    using extract_verdict [of E dp op w] by (simp_all add: v_def document_at_def)
  have ok: "\<exists>doc. snd v = Some doc \<and> ''error'' \<notin> keys_of doc" if "fst v = Returned 0"
  proof -
    from verdict_success [of E "dcmread E (files w dp)" "open_error w op"] that
    obtain dcm s where "run_steps (field_steps E dcm) \<lparr>metadata = [], printed = []\<rparr> = (None, s)"
      and "snd v = Some (metadata s)"
      by (auto simp: v_def)
    with run_error [of E dcm None s] show ?thesis by (simp add: in_keys_of)
  qed
  have fb1: "\<exists>doc. snd v = Some doc \<and> ''error'' \<in> keys_of doc" if "fst v = SysExit 1"
    using verdict_exit [of E "dcmread E (files w dp)" "open_error w op"] that
    by (simp add: v_def keys_fallback)
  have fb2: "\<exists>doc. snd v = Some doc \<and> ''error'' \<in> keys_of doc" if "fst v = Returned 2"
    using verdict_failure [of E "dcmread E (files w dp)" "open_error w op"] that
    by (auto simp: v_def keys_fallback)
  from ok fb1 fb2 ends left show ?thesis by (auto simp: keys_fallback)
qed

text \<open>The witness: one run on each of the three paths.\<close>

theorem error_key_marks_fallback_witness:
  "fst (extract_metadata (example_env ax_3d_space) ''scan.dcm'' ''out.json'' example_world)
     = Returned 0
   \<and> (\<exists>doc. document_at (snd (extract_metadata (example_env ax_3d_space)
                  ''scan.dcm'' ''out.json'' example_world)) ''out.json'' = Some doc
          \<and> ''error'' \<notin> keys_of doc)
   \<and> fst (extract_metadata no_pydicom_env ''scan.dcm'' ''out.json'' example_world) = SysExit 1
   \<and> (\<exists>doc. document_at (snd (extract_metadata no_pydicom_env
                  ''scan.dcm'' ''out.json'' example_world)) ''out.json'' = Some doc
          \<and> ''error'' \<in> keys_of doc)
   \<and> fst (extract_metadata (example_env no_attributes) ''missing.dcm'' ''out.json''
          example_world) = Returned 2
   \<and> (\<exists>doc. document_at (snd (extract_metadata (example_env no_attributes)
                  ''missing.dcm'' ''out.json'' example_world)) ''out.json'' = Some doc
          \<and> ''error'' \<in> keys_of doc)"
  using error_key_marks_fallback [of "example_env ax_3d_space" "''scan.dcm''" "''out.json''"
      example_world]
    error_key_marks_fallback [of no_pydicom_env "''scan.dcm''" "''out.json''" example_world]
    error_key_marks_fallback [of "example_env no_attributes" "''missing.dcm''" "''out.json''"
      example_world]
  by (simp add: run_ax_3d_space run_no_pydicom run_missing_input)

end
